theory Spec2Isabelle
  imports Complex_Main "HOL-Library.Sublist"
begin

section \<open>JavaScript values\<close>

text \<open>
  The chat client reads backend payloads through \<^verbatim>\<open>any\<close>, so its behaviour is decided by
  JavaScript's run-time values and by truthiness, not by the TypeScript annotations.
  Strings are sequences of code units below 256 (\<^typ>\<open>string\<close>); numbers are the finite
  doubles as rationals, the two infinities and NaN. An object is the association list of
  its own properties, each key once, in insertion order.
\<close>

datatype jsnum = Fin rat | PosInf | NegInf | NaN

datatype jsval =
    Undefined
  | Null
  | Bool bool
  | Num jsnum
  | Str string
  | Arr "jsval list"
  | Obj "(string \<times> jsval) list"

text \<open>ToBoolean: the falsy values are undefined, null, false, 0, NaN and the empty string.\<close>

fun truthy :: "jsval \<Rightarrow> bool" where
  "truthy Undefined = False"
| "truthy Null = False"
| "truthy (Bool b) = b"
| "truthy (Num n) = (n \<noteq> Fin 0 \<and> n \<noteq> NaN)"
| "truthy (Str s) = (s \<noteq> [])"
| "truthy (Arr xs) = True"
| "truthy (Obj kvs) = True"

text \<open>\<^verbatim>\<open>a || b\<close>: the left operand when it is truthy, else the right one.\<close>

definition js_or :: "jsval \<Rightarrow> jsval \<Rightarrow> jsval" where
  "js_or a b = (if truthy a then a else b)"

text \<open>
  What a \<^verbatim>\<open>catch\<close> clause can receive: an \<^verbatim>\<open>Error\<close> instance with its message, or any
  other thrown value.
\<close>

datatype thrown = JsError string | NonError

text \<open>
  \<^verbatim>\<open>o.p\<close> for a property name \<open>p\<close>. Reading a property of \<^verbatim>\<open>undefined\<close> or \<^verbatim>\<open>null\<close> throws a
  TypeError whose message is the engine's; \<open>E p\<close> is that message. The names read by the
  chat client (\<^verbatim>\<open>reply\<close>, \<^verbatim>\<open>message\<close>, \<^verbatim>\<open>content\<close>, \<^verbatim>\<open>suggestions\<close>, \<^verbatim>\<open>quick_replies\<close>,
  \<^verbatim>\<open>session_id\<close>, \<^verbatim>\<open>sessionId\<close>, \<^verbatim>\<open>code\<close>, \<^verbatim>\<open>error_code\<close>, \<^verbatim>\<open>error\<close>) are no members of
  any built-in prototype, so on a primitive or an array they read \<^verbatim>\<open>undefined\<close>.
\<close>

fun getField :: "(string \<Rightarrow> string) \<Rightarrow> jsval \<Rightarrow> string \<Rightarrow> thrown + jsval" where
  "getField E Undefined p = Inl (JsError (E p))"
| "getField E Null p = Inl (JsError (E p))"
| "getField E (Obj kvs) p = Inr (case map_of kvs p of None \<Rightarrow> Undefined | Some v \<Rightarrow> v)"
| "getField E v p = Inr Undefined"

text \<open>Decimal rendering of a number in a template literal, for the HTTP status.\<close>

definition digit :: "nat \<Rightarrow> char" where
  "digit d = ''0123456789'' ! d"

fun show_nat :: "nat \<Rightarrow> string" where
  "show_nat n = (if n < 10 then [digit n] else show_nat (n div 10) @ [digit (n mod 10)])"

declare show_nat.simps [simp del]

section \<open>The chat client's data\<close>

text \<open>The interfaces of the chat client (\<^verbatim>\<open>src/unnamed/part_001\<close>, lines 8 to 33).\<close>

datatype Role = User | Assistant | System

record Message =
  role :: Role
  content :: string
  timestamp :: "nat option"

datatype Locale = It | En

text \<open>Optional properties of the request are \<open>None\<close> when absent or \<^verbatim>\<open>undefined\<close>.\<close>

record ChatRequest =
  message :: "string option"
  messages :: "Message list option"
  sessionId :: "string option"
  req_locale :: "Locale option"

text \<open>
  A field of the response holds \<^const>\<open>Undefined\<close> when the returned object literal has no
  such key: reading it yields \<^verbatim>\<open>undefined\<close>. The fields are \<^typ>\<open>jsval\<close> because the client
  copies whatever the backend sent.
\<close>

record ChatResponse =
  reply :: jsval
  suggestions :: jsval
  resp_sessionId :: jsval
  error :: jsval
  code :: jsval

record EscalateRequest =
  esc_sessionId :: string
  reason :: string
  transcript :: "Message list"

record EscalateResult =
  success :: bool
  esc_error :: jsval

record HealthResult =
  ok :: bool
  health_error :: jsval

text \<open>
  The transport. A call of \<^verbatim>\<open>fetch\<close> either throws, or resolves to a response with a status
  and a body; \<^verbatim>\<open>response.json()\<close> either throws or yields the parsed value. Building the
  URL (\<^verbatim>\<open>getBackendUrl\<close>) happens inside the same \<^verbatim>\<open>try\<close> block, so its failure is a throw
  of the transport as well. \<open>payload\<close> is the object handed to \<^verbatim>\<open>JSON.stringify\<close>.
\<close>

record HttpRequest =
  endpoint :: string
  http_method :: string
  payload :: "jsval option"

record Response =
  status :: nat
  json :: "thrown + jsval"

type_synonym transport = "HttpRequest \<Rightarrow> thrown + Response"

text \<open>\<^verbatim>\<open>response.ok\<close>: the status is in the range 200 to 299.\<close>

definition response_ok :: "Response \<Rightarrow> bool" where
  "response_ok response = (200 \<le> status response \<and> status response \<le> 299)"

definition opt_str :: "string option \<Rightarrow> jsval" where
  "opt_str x = (case x of None \<Rightarrow> Undefined | Some s \<Rightarrow> Str s)"

fun locale_str :: "Locale \<Rightarrow> string" where
  "locale_str It = ''it''"
| "locale_str En = ''en''"

definition opt_locale :: "Locale option \<Rightarrow> jsval" where
  "opt_locale x = (case x of None \<Rightarrow> Undefined | Some l \<Rightarrow> Str (locale_str l))"

fun role_str :: "Role \<Rightarrow> string" where
  "role_str User = ''user''"
| "role_str Assistant = ''assistant''"
| "role_str System = ''system''"

definition message_val :: "Message \<Rightarrow> jsval" where
  "message_val m =
     Obj ([(''role'', Str (role_str (role m))), (''content'', Str (content m))] @
          (case timestamp m of None \<Rightarrow> [] | Some ts \<Rightarrow> [(''timestamp'', Num (Fin (of_nat ts)))]))"

section \<open>The chat client\<close>

text \<open>\<^verbatim>\<open>s.includes(sub)\<close>: \<open>sub\<close> occurs in \<open>s\<close> as a contiguous run.\<close>

fun includes_str :: "string \<Rightarrow> string \<Rightarrow> bool" where
  "includes_str [] t = (t = [])"
| "includes_str (c # s) t = (prefix t (c # s) \<or> includes_str s t)"

text \<open>
  \<^verbatim>\<open>handleNetworkError\<close> (lines 188 to 198). The text it inspects is the message of an
  \<^verbatim>\<open>Error\<close>, and \<^verbatim>\<open>Unknown error\<close> for anything else that was thrown.
\<close>

definition error_message :: "thrown \<Rightarrow> string" where
  "error_message e = (case e of JsError m \<Rightarrow> m | NonError \<Rightarrow> ''Unknown error'')"

definition handleNetworkError :: "thrown \<Rightarrow> ChatResponse" where
  "handleNetworkError e =
     (let message = error_message e in
      if includes_str message ''fetch'' \<or> includes_str message ''network''
      then \<lparr>reply = Str '''', suggestions = Undefined, resp_sessionId = Undefined,
             error = Str ''network_error'', code = Undefined\<rparr>
      else \<lparr>reply = Str '''', suggestions = Undefined, resp_sessionId = Undefined,
             error = Str ''unknown_error'', code = Undefined\<rparr>)"

text \<open>
  The \<^verbatim>\<open>switch\<close> of \<^verbatim>\<open>handleErrorResponse\<close> (lines 156 to 180): strict equality on the code,
  then the status in the \<^verbatim>\<open>default\<close> branch.
\<close>

definition errorCategory :: "jsval \<Rightarrow> nat \<Rightarrow> jsval \<Rightarrow> jsval" where
  "errorCategory c st raw =
     (if c = Str ''quota_exceeded'' \<or> c = Str ''rate_limit'' then Str ''quota_exceeded''
      else if c = Str ''billing_not_active'' \<or> c = Str ''payment_required''
        then Str ''billing_not_active''
      else if c = Str ''invalid_api_key'' \<or> c = Str ''unauthorized'' then Str ''invalid_api_key''
      else if c = Str ''timeout'' then Str ''timeout''
      else if st \<ge> 500 then Str ''server_error''
      else if st = 401 \<or> st = 403 then Str ''invalid_api_key''
      else if st = 429 then Str ''quota_exceeded''
      else raw)"

text \<open>
  \<^verbatim>\<open>handleErrorResponse\<close> (lines 143 to 183). A body that does not parse leaves \<^verbatim>\<open>errorData\<close> the empty object.
  The four property reads either all succeed or (on a body that parsed to \<^verbatim>\<open>null\<close>) the
  first one throws, so the result is \<open>Inl\<close> of that TypeError: the promise rejects.
\<close>

definition handleErrorResponse :: "(string \<Rightarrow> string) \<Rightarrow> Response \<Rightarrow> thrown + ChatResponse" where
  "handleErrorResponse E response =
     (let errorData = (case json response of Inl _ \<Rightarrow> Obj [] | Inr d \<Rightarrow> d) in
      case getField E errorData ''code'' of Inl e \<Rightarrow> Inl e | Inr d_code \<Rightarrow>
      case getField E errorData ''error_code'' of Inl e \<Rightarrow> Inl e | Inr d_error_code \<Rightarrow>
      case getField E errorData ''error'' of Inl e \<Rightarrow> Inl e | Inr d_error \<Rightarrow>
      case getField E errorData ''message'' of Inl e \<Rightarrow> Inl e | Inr d_message \<Rightarrow>
      (let c = js_or d_code (js_or d_error_code (Str (''http_'' @ show_nat (status response))));
           raw = js_or d_error (js_or d_message (Str (''HTTP '' @ show_nat (status response))))
       in Inr \<lparr>reply = Str '''', suggestions = Undefined, resp_sessionId = Undefined,
                error = errorCategory c (status response) raw, code = c\<rparr>))"

text \<open>
  The request body of \<^verbatim>\<open>askBackend\<close> (lines 51 to 60), as the object built before
  \<^verbatim>\<open>JSON.stringify\<close>, which leaves out the keys whose value is \<^verbatim>\<open>undefined\<close>.
\<close>

definition buildBody :: "ChatRequest \<Rightarrow> (string \<times> jsval) list" where
  "buildBody request =
     [(''session_id'', opt_str (sessionId request)), (''locale'', opt_locale (req_locale request))] @
     (if (case messages request of None \<Rightarrow> False | Some ms \<Rightarrow> length ms > 0)
      then [(''messages'', Arr (map message_val (the (messages request))))]
      else if (case message request of None \<Rightarrow> False | Some m \<Rightarrow> m \<noteq> [])
      then [(''message'', Str (the (message request)))]
      else [])"

text \<open>
  The keys that reach the wire: \<^verbatim>\<open>JSON.stringify\<close> writes the properties of the object in
  order and leaves out those whose value is \<^verbatim>\<open>undefined\<close>.
\<close>

definition wire_keys :: "(string \<times> jsval) list \<Rightarrow> string list" where
  "wire_keys body = map fst (filter (\<lambda>kv. snd kv \<noteq> Undefined) body)"

text \<open>The three requests the client issues: endpoint, method and body.\<close>

definition chat_call :: "ChatRequest \<Rightarrow> HttpRequest" where
  "chat_call request =
     \<lparr>endpoint = ''/api/chat/msg'', http_method = ''POST'',
      payload = Some (Obj (buildBody request))\<rparr>"

definition escalate_call :: "EscalateRequest \<Rightarrow> HttpRequest" where
  "escalate_call request =
     \<lparr>endpoint = ''/api/escalate/'', http_method = ''POST'',
      payload = Some (Obj [(''session_id'', Str (esc_sessionId request)),
                           (''reason'', Str (reason request)),
                           (''transcript'', Arr (map message_val (transcript request)))])\<rparr>"

definition health_call :: HttpRequest where
  "health_call = \<lparr>endpoint = ''/health/'', http_method = ''GET'', payload = None\<rparr>"

text \<open>
  The success branch of \<^verbatim>\<open>askBackend\<close> (lines 77 to 81): the object literal built from the
  parsed body \<open>data\<close>.
\<close>

definition adaptResponse :: "(string \<Rightarrow> string) \<Rightarrow> ChatRequest \<Rightarrow> jsval \<Rightarrow> thrown + ChatResponse" where
  "adaptResponse E request data =
     (case getField E data ''reply'' of Inl e \<Rightarrow> Inl e | Inr d_reply \<Rightarrow>
      case getField E data ''message'' of Inl e \<Rightarrow> Inl e | Inr d_message \<Rightarrow>
      case getField E data ''content'' of Inl e \<Rightarrow> Inl e | Inr d_content \<Rightarrow>
      case getField E data ''suggestions'' of Inl e \<Rightarrow> Inl e | Inr d_suggestions \<Rightarrow>
      case getField E data ''quick_replies'' of Inl e \<Rightarrow> Inl e | Inr d_quick_replies \<Rightarrow>
      case getField E data ''session_id'' of Inl e \<Rightarrow> Inl e | Inr d_session_id \<Rightarrow>
      case getField E data ''sessionId'' of Inl e \<Rightarrow> Inl e | Inr d_sessionId \<Rightarrow>
      Inr \<lparr>reply = js_or d_reply (js_or d_message (js_or d_content (Str ''''))),
            suggestions = js_or d_suggestions (js_or d_quick_replies (Arr [])),
            resp_sessionId = js_or d_session_id (js_or d_sessionId (opt_str (sessionId request))),
            error = Undefined, code = Undefined\<rparr>)"

text \<open>
  \<^verbatim>\<open>askBackend\<close> (lines 46 to 85). The error branch returns the promise of \<^verbatim>\<open>handleErrorResponse\<close> without
  awaiting it, so a rejection there is not caught by the \<^verbatim>\<open>catch\<close> clause and rejects
  \<^verbatim>\<open>askBackend\<close> itself; everything else thrown inside \<^verbatim>\<open>try\<close> goes to
  \<^verbatim>\<open>handleNetworkError\<close>.
\<close>

definition askBackend :: "(string \<Rightarrow> string) \<Rightarrow> transport \<Rightarrow> ChatRequest \<Rightarrow> thrown + ChatResponse" where
  "askBackend E fetch request =
     (case fetch (chat_call request) of
        Inl e \<Rightarrow> Inr (handleNetworkError e)
      | Inr response \<Rightarrow>
          if \<not> response_ok response then handleErrorResponse E response
          else (case json response of
                  Inl e \<Rightarrow> Inr (handleNetworkError e)
                | Inr data \<Rightarrow>
                    (case adaptResponse E request data of
                       Inl e \<Rightarrow> Inr (handleNetworkError e)
                     | Inr r \<Rightarrow> Inr r)))"

text \<open>
  \<^verbatim>\<open>escalate\<close> (lines 90 to 116) awaits the classifier, so its rejection is caught here.
\<close>

definition escalate :: "(string \<Rightarrow> string) \<Rightarrow> transport \<Rightarrow> EscalateRequest \<Rightarrow> EscalateResult" where
  "escalate E fetch request =
     (case fetch (escalate_call request) of
        Inl e \<Rightarrow> \<lparr>success = False, esc_error = error (handleNetworkError e)\<rparr>
      | Inr response \<Rightarrow>
          if \<not> response_ok response
          then (case handleErrorResponse E response of
                  Inl e \<Rightarrow> \<lparr>success = False, esc_error = error (handleNetworkError e)\<rparr>
                | Inr r \<Rightarrow> \<lparr>success = False, esc_error = error r\<rparr>)
          else \<lparr>success = True, esc_error = Undefined\<rparr>)"

text \<open>\<^verbatim>\<open>checkHealth\<close> (lines 121 to 138).\<close>

definition checkHealth :: "transport \<Rightarrow> HealthResult" where
  "checkHealth fetch =
     (case fetch health_call of
        Inl e \<Rightarrow> \<lparr>ok = False,
                  health_error = Str (case e of JsError m \<Rightarrow> m | NonError \<Rightarrow> ''Network error'')\<rparr>
      | Inr response \<Rightarrow>
          \<lparr>ok = response_ok response,
           health_error = (if response_ok response then Undefined
                           else Str (''HTTP '' @ show_nat (status response)))\<rparr>)"

section \<open>Translations\<close>

text \<open>
  The static table (\<^verbatim>\<open>src/unnamed/part_002\<close>, lines 17 to 101), one object per locale. Letters outside ASCII and the
  apostrophe are written by their code.
\<close>

definition translations_it :: "(string \<times> jsval) list" where
  "translations_it =
     [(''agentName'', Str ''Ilaria''),
      (''agentRole'', Str ''Assistente Compliance''),
      (''online'', Str ''Online''),
      (''slaInfo'', Str ''Rispondo in pochi secondi''),
      (''escalate'', Str ''Parla con un umano''),
      (''greeting'', Str ''Ciao! Sono Ilaria, la tua assistente per la compliance aziendale. Come posso aiutarti oggi?''),
      (''quickReplies'', Arr [Str (''Devo aprire una nuova attivit'' @ [CHR 0xE0]),
          Str ''Verifica obblighi'',
          Str ''Parla in English'']),
      (''placeholder'', Str ''Scrivi un messaggio...''),
      (''sending'', Str ''Invio...''),
      (''escalateTitle'', Str ''Vuoi parlare con un collega?''),
      (''escalateMessage'', Str ''Ti metto in contatto con un esperto umano. Va bene?''),
      (''escalateConfirm'', Str (''S'' @ [CHR 0xEC] @ '', grazie'')),
      (''escalateCancel'', Str ''No, continua tu''),
      (''escalated'', Str ''Perfetto! Ti metto in contatto con un collega umano. Resta in linea.''),
      (''errorTitle'', Str (''Ops, c'' @ [CHR 0x27] @ [CHR 0xE8] @ '' un problema'')),
      (''errorNetwork'', Str ''Non riesco a contattare il server. Verifica la connessione.''),
      (''errorTimeout'', Str ''Il server ci sta mettendo troppo. Riprova tra poco.''),
      (''errorQuota'', Str (''Hai raggiunto il limite di richieste. Riprova pi'' @ [CHR 0xF9] @ '' tardi.'')),
      (''errorBilling'', Str (''Il servizio non '' @ [CHR 0xE8] @ '' attivo. Contatta l'' @ [CHR 0x27] @ ''amministratore.'')),
      (''errorUnknown'', Str (''Qualcosa '' @ [CHR 0xE8] @ '' andato storto. Riprova.'')),
      (''retry'', Str ''Riprova''),
      (''healthCheck'', Str ''Verifica server''),
      (''healthOk'', Str ''Server OK''),
      (''healthFail'', Str ''Server non raggiungibile'')]"

definition translations_en :: "(string \<times> jsval) list" where
  "translations_en =
     [(''agentName'', Str ''Ilaria''),
      (''agentRole'', Str ''Compliance Assistant''),
      (''online'', Str ''Online''),
      (''slaInfo'', Str ''I respond in seconds''),
      (''escalate'', Str ''Talk to a human''),
      (''greeting'', Str (''Hi! I'' @ [CHR 0x27] @ ''m Ilaria, your business compliance assistant. How can I help you today?'')),
      (''quickReplies'', Arr [Str ''Start a new business'',
          Str ''Check obligations'',
          Str ''Parla in Italiano'']),
      (''placeholder'', Str ''Type a message...''),
      (''sending'', Str ''Sending...''),
      (''escalateTitle'', Str ''Want to talk to a colleague?''),
      (''escalateMessage'', Str (''I'' @ [CHR 0x27] @ ''ll connect you with a human expert. Sound good?'')),
      (''escalateConfirm'', Str ''Yes, please''),
      (''escalateCancel'', Str ''No, continue''),
      (''escalated'', Str (''Perfect! I'' @ [CHR 0x27] @ ''m connecting you with a human colleague. Stand by.'')),
      (''errorTitle'', Str (''Oop'' @ ''s, there'' @ [CHR 0x27] @ ''s a problem'')),
      (''errorNetwork'', Str (''Can'' @ [CHR 0x27] @ ''t reach the server. Check your connection.'')),
      (''errorTimeout'', Str ''The server is taking too long. Try again in a moment.''),
      (''errorQuota'', Str (''You'' @ [CHR 0x27] @ ''ve reached the request limit. Try again later.'')),
      (''errorBilling'', Str ''The service is not active. Contact the administrator.''),
      (''errorUnknown'', Str ''Something went wrong. Please try again.''),
      (''retry'', Str ''Retry''),
      (''healthCheck'', Str ''Check server''),
      (''healthOk'', Str ''Server OK''),
      (''healthFail'', Str ''Server unreachable'')]"

definition translation_table :: "Locale \<Rightarrow> jsval" where
  "translation_table l = (case l of It \<Rightarrow> Obj translations_it | En \<Rightarrow> Obj translations_en)"

text \<open>\<^verbatim>\<open>key.split(".")\<close>: the segments between the dots, at least one.\<close>

fun split_on :: "char \<Rightarrow> string \<Rightarrow> string list" where
  "split_on sep [] = [[]]"
| "split_on sep (x # xs) =
     (if x = sep then [] # split_on sep xs
      else (case split_on sep xs of w # ws \<Rightarrow> (x # w) # ws | [] \<Rightarrow> [[x]]))"

text \<open>
  An array index as a property name: the decimal digits of a number, with no leading zero.
\<close>

definition digit_val :: "char \<Rightarrow> nat" where
  "digit_val c = of_char c - 48"

definition is_digit :: "char \<Rightarrow> bool" where
  "is_digit c = (48 \<le> (of_char c :: nat) \<and> (of_char c :: nat) \<le> 57)"

definition read_nat :: "string \<Rightarrow> nat" where
  "read_nat s = foldl (\<lambda>a c. 10 * a + digit_val c) 0 s"

definition array_index :: "string \<Rightarrow> nat option" where
  "array_index k =
     (if k \<noteq> [] \<and> list_all is_digit k \<and> (k = ''0'' \<or> hd k \<noteq> CHR ''0'')
      then Some (read_nat k) else None)"

text \<open>
  The values a lookup can reach: the data of the table, and the built-in functions and
  objects of the engine, which a path reaches through the prototype chain (the method
  \<^verbatim>\<open>toString\<close> of every object, the constructor \<^verbatim>\<open>Object\<close>). A built-in is no data; it is
  named by the path that denotes it.
\<close>

datatype tvalue = Data jsval | Builtin string

text \<open>
  The prototype chain of the engine, as a parameter: \<open>P v k\<close> is what reading the
  property \<open>k\<close> of \<open>v\<close> yields when \<open>v\<close> has no own property \<open>k\<close> and its chain has one (a
  value, or the exception its getter throws), and \<open>None\<close> when the chain has none.
\<close>

type_synonym prototypes = "tvalue \<Rightarrow> string \<Rightarrow> (thrown + tvalue) option"

definition inherited :: "prototypes \<Rightarrow> tvalue \<Rightarrow> string \<Rightarrow> thrown + tvalue" where
  "inherited P v k = (case P v k of None \<Rightarrow> Inr (Data Undefined) | Some r \<Rightarrow> r)"

text \<open>
  \<^verbatim>\<open>value[k]\<close> on a value other than \<^verbatim>\<open>undefined\<close> and \<^verbatim>\<open>null\<close>. Own properties come first:
  the properties of an object, the elements and the length of an array, the code units and
  the length of a string; everything else is looked up in the prototype chain.
\<close>

fun getProp :: "prototypes \<Rightarrow> tvalue \<Rightarrow> string \<Rightarrow> thrown + tvalue" where
  "getProp P (Data (Obj kvs)) k =
     (case map_of kvs k of None \<Rightarrow> inherited P (Data (Obj kvs)) k | Some v \<Rightarrow> Inr (Data v))"
| "getProp P (Data (Arr xs)) k =
     (if k = ''length'' then Inr (Data (Num (Fin (of_nat (length xs)))))
      else (case array_index k of
              Some i \<Rightarrow> if i < length xs then Inr (Data (xs ! i))
                        else inherited P (Data (Arr xs)) k
            | None \<Rightarrow> inherited P (Data (Arr xs)) k))"
| "getProp P (Data (Str s)) k =
     (if k = ''length'' then Inr (Data (Num (Fin (of_nat (length s)))))
      else (case array_index k of
              Some i \<Rightarrow> if i < length s then Inr (Data (Str [s ! i]))
                        else inherited P (Data (Str s)) k
            | None \<Rightarrow> inherited P (Data (Str s)) k))"
| "getProp P v k = inherited P v k"

text \<open>\<^verbatim>\<open>value?.[k]\<close>: \<^verbatim>\<open>undefined\<close> on \<^verbatim>\<open>undefined\<close> and \<^verbatim>\<open>null\<close>, the property otherwise.\<close>

definition opt_chain :: "prototypes \<Rightarrow> tvalue \<Rightarrow> string \<Rightarrow> thrown + tvalue" where
  "opt_chain P v k =
     (if v = Data Undefined \<or> v = Data Null then Inr (Data Undefined) else getProp P v k)"

text \<open>The loop over the segments of the key; an exception ends it.\<close>

fun walk :: "prototypes \<Rightarrow> tvalue \<Rightarrow> string list \<Rightarrow> thrown + tvalue" where
  "walk P v [] = Inr v"
| "walk P v (k # ks) = (case opt_chain P v k of Inl e \<Rightarrow> Inl e | Inr v' \<Rightarrow> walk P v' ks)"

text \<open>Truthiness; a built-in function or object is truthy.\<close>

definition tv_truthy :: "tvalue \<Rightarrow> bool" where
  "tv_truthy v = (case v of Data d \<Rightarrow> truthy d | Builtin n \<Rightarrow> True)"

text \<open>
  \<^verbatim>\<open>t(locale, key)\<close> (lines 103 to 112): the loop over the segments, then \<^verbatim>\<open>value || key\<close>.
  The declared result type is \<^verbatim>\<open>string\<close>; the value returned is whatever the path
  reaches, and an exception thrown on the way leaves the function.
\<close>

definition t :: "prototypes \<Rightarrow> Locale \<Rightarrow> string \<Rightarrow> thrown + tvalue" where
  "t P l key =
     (case walk P (Data (translation_table l)) (split_on CHR ''.'' key) of
        Inl e \<Rightarrow> Inl e
      | Inr value \<Rightarrow> Inr (if tv_truthy value then value else Data (Str key)))"

text \<open>The call returned, and what it returned is a string.\<close>

definition is_string :: "thrown + tvalue \<Rightarrow> bool" where
  "is_string r = (case r of Inr (Data (Str s)) \<Rightarrow> True | _ \<Rightarrow> False)"

text \<open>
  Two members every engine inherits to the table's objects, as a sample of \<open>P\<close>: the
  method \<^verbatim>\<open>toString\<close> and the constructor \<^verbatim>\<open>Object\<close>, whose property \<^verbatim>\<open>caller\<close> is a getter that
  throws a TypeError.
\<close>

definition sample_prototypes :: prototypes where
  "sample_prototypes v k =
     (case v of
        Data (Obj kvs) \<Rightarrow>
          (if k = ''toString'' then Some (Inr (Builtin ''Object.prototype.toString''))
           else if k = ''constructor'' then Some (Inr (Builtin ''Object''))
           else None)
      | Builtin n \<Rightarrow>
          (if n = ''Object'' \<and> k = ''caller''
           then Some (Inl (JsError ''restricted function property''))
           else None)
      | _ \<Rightarrow> None)"

section \<open>The conversation view\<close>

text \<open>The component \<^verbatim>\<open>SupportChat\<close> (\<^verbatim>\<open>src/unnamed/part_002\<close>, from line 134).\<close>

subsection \<open>Language switching\<close>

text \<open>
  \<^verbatim>\<open>toLowerCase\<close> on code units below 256: the ASCII capitals and the Latin-1 capitals
  (all of C0 to DE but the multiplication sign D7) move up by 32.
\<close>

definition toLowerChar :: "char \<Rightarrow> char" where
  "toLowerChar c =
     (let n = (of_char c :: nat) in
      if (65 \<le> n \<and> n \<le> 90) \<or> (192 \<le> n \<and> n \<le> 222 \<and> n \<noteq> 215) then char_of (n + 32) else c)"

definition toLowerCase :: "string \<Rightarrow> string" where
  "toLowerCase s = map toLowerChar s"

text \<open>
  The canonical form under the \<^verbatim>\<open>i\<close> flag (no \<^verbatim>\<open>u\<close> flag): the upper-case code unit. The
  two Latin-1 letters whose capitals lie above 255 (B5, FF) and the sharp s are left
  alone; none of them compares equal to another code unit below 256 either way.
\<close>

definition canonicalize :: "char \<Rightarrow> char" where
  "canonicalize c =
     (let n = (of_char c :: nat) in
      if (97 \<le> n \<and> n \<le> 122) \<or> (224 \<le> n \<and> n \<le> 254 \<and> n \<noteq> 247) then char_of (n - 32) else c)"

text \<open>The class \<^verbatim>\<open>\w\<close>: ASCII letters, digits and the underscore.\<close>

definition is_word_char :: "char \<Rightarrow> bool" where
  "is_word_char c =
     (let n = (of_char c :: nat) in
      (48 \<le> n \<and> n \<le> 57) \<or> (65 \<le> n \<and> n \<le> 90) \<or> n = 95 \<or> (97 \<le> n \<and> n \<le> 122))"

text \<open>
  The assertion \<^verbatim>\<open>\b\<close> at position \<open>i\<close>: exactly one of the code units before and after the
  position is a word character; outside the string there is none.
\<close>

definition at_boundary :: "string \<Rightarrow> nat \<Rightarrow> bool" where
  "at_boundary s i =
     ((0 < i \<and> i \<le> length s \<and> is_word_char (s ! (i - 1)))
        \<noteq> (i < length s \<and> is_word_char (s ! i)))"

text \<open>
  The regular expressions of the view use literals, \<^verbatim>\<open>\w*\<close>, \<^verbatim>\<open>\b\<close>, alternation and
  sequence, all under the \<^verbatim>\<open>i\<close> flag. \<open>ends r s i\<close> lists every position at which a match of
  \<open>r\<close> that starts at \<open>i\<close> can end, which is what backtracking explores; \<^verbatim>\<open>test\<close> succeeds
  when some start position has an end.
\<close>

datatype regex = Lit string | WordChars | WordBoundary | Alt regex regex | Seq regex regex

fun ends :: "regex \<Rightarrow> string \<Rightarrow> nat \<Rightarrow> nat list" where
  "ends (Lit w) s i =
     (if map canonicalize (take (length w) (drop i s)) = map canonicalize w
      then [i + length w] else [])"
| "ends WordChars s i =
     map (\<lambda>k. i + k) [0..<Suc (length (takeWhile is_word_char (drop i s)))]"
| "ends WordBoundary s i = (if at_boundary s i then [i] else [])"
| "ends (Alt a b) s i = ends a s i @ ends b s i"
| "ends (Seq a b) s i = concat (map (ends b s) (ends a s i))"

definition regex_test :: "regex \<Rightarrow> string \<Rightarrow> bool" where
  "regex_test r s = list_ex (\<lambda>i. ends r s i \<noteq> []) [0..<Suc (length s)]"

text \<open>\<^verbatim>\<open>/\b(english|inglese|engl\w*)\b/i\<close> and \<^verbatim>\<open>/\b(italian|italiano|ital\w*)\b/i\<close>.\<close>

definition english_rx :: regex where
  "english_rx =
     Seq WordBoundary
       (Seq (Alt (Lit ''english'') (Alt (Lit ''inglese'') (Seq (Lit ''engl'') WordChars)))
            WordBoundary)"

definition italian_rx :: regex where
  "italian_rx =
     Seq WordBoundary
       (Seq (Alt (Lit ''italian'') (Alt (Lit ''italiano'') (Seq (Lit ''ital'') WordChars)))
            WordBoundary)"

text \<open>
  The effect that runs whenever the message list changes (lines 183 to 193): it looks at
  the last message; the result is the locale the view has afterwards.
\<close>

definition detectLanguageSwitch :: "Message list \<Rightarrow> Locale \<Rightarrow> Locale" where
  "detectLanguageSwitch ms loc =
     (if ms = [] then loc
      else (let lastMessage = last ms in
            if role lastMessage = User
            then (let c = toLowerCase (content lastMessage) in
                  if regex_test english_rx c then En
                  else if regex_test italian_rx c then It
                  else loc)
            else loc))"

subsection \<open>The session identifier\<close>

text \<open>
  \<^verbatim>\<open>ensureSidAndGreeting\<close> and \<^verbatim>\<open>sendMessage\<close> are asynchronous: each reads the identifier,
  and when it finds none it calls \<^verbatim>\<open>chatClient.start()\<close> and is suspended at the \<^verbatim>\<open>await\<close>
  until the answer arrives. Other handlers run in between, so a handler is modelled in two
  parts, the one before the \<^verbatim>\<open>await\<close> and the one after it, and the view's state lists
  the start calls that are still pending, in the order of their issue. A pending call
  remembers what the rest of its handler needs: for the effect, its \<^verbatim>\<open>mounted\<close> flag; for
  \<^verbatim>\<open>sendMessage\<close>, the text and the locale it was called with.
\<close>

datatype Pending = PendingEffect bool | PendingSend string Locale

text \<open>
  The part of the view's state that the session logic touches: the locale, the message
  list, the \<^verbatim>\<open>sessionId\<close> state (\<open>None\<close> for \<^verbatim>\<open>null\<close>), the composer's text, the typing flag,
  the browser's \<^verbatim>\<open>localStorage\<close>, and the pending start calls.
\<close>

record ViewState =
  locale_state :: Locale
  messages_state :: "Message list"
  sessionId_state :: "string option"
  input_state :: string
  isTyping_state :: bool
  localStorage :: "string \<rightharpoonup> string"
  pending_starts :: "Pending list"

definition SID_KEY :: string where
  "SID_KEY = ''chat_session_id''"

text \<open>
  Modelled from the spec: \<^verbatim>\<open>chatClient.start()\<close>, which the view calls and which is not in
  the sources. The specification gives it no argument ("issues a session-start request
  with no prior session id", a POST to \<^verbatim>\<open>/api/chat/start\<close> with no body) and the result
  \<^verbatim>\<open>{session_id, reply}\<close>: "a fresh identifier plus an initial greeting", the identifier
  being "created by the backend on first session start". The backend is given by the
  identifiers it has issued so far and its greeting; a fresh identifier is one that is
  longer than every identifier issued before, so it is none of them.
\<close>

record StartResult =
  session_id :: string
  start_reply :: string

record Backend =
  issued :: "string list"
  greeting :: string

definition start_call :: HttpRequest where
  "start_call = \<lparr>endpoint = ''/api/chat/start'', http_method = ''POST'', payload = None\<rparr>"

definition fresh_id :: "string list \<Rightarrow> string" where
  "fresh_id ids = replicate (Suc (foldr (\<lambda>x m. max (length x) m) ids 0)) CHR ''s''"

definition start :: "Backend \<Rightarrow> StartResult \<times> Backend" where
  "start b =
     (\<lparr>session_id = fresh_id (issued b), start_reply = greeting b\<rparr>,
      b\<lparr>issued := fresh_id (issued b) # issued b\<rparr>)"

text \<open>The calls of the chat client a handler makes, in order.\<close>

datatype ClientCall = CallStart | CallAskBackend ChatRequest

text \<open>Truthiness of a value of type \<^verbatim>\<open>string | null\<close>.\<close>

definition str_truthy :: "string option \<Rightarrow> bool" where
  "str_truthy x = (case x of None \<Rightarrow> False | Some s \<Rightarrow> s \<noteq> [])"

text \<open>\<^verbatim>\<open>trim\<close>: the white space below 256 is TAB, LF, VT, FF, CR, space and the no-break space.\<close>

definition is_space :: "char \<Rightarrow> bool" where
  "is_space c = ((of_char c :: nat) \<in> {9, 10, 11, 12, 13, 32, 160})"

definition trim :: "string \<Rightarrow> string" where
  "trim s = rev (dropWhile is_space (rev (dropWhile is_space s)))"

text \<open>
  \<^verbatim>\<open>setSessionId(v)\<close>. A value equal to the current one changes nothing. A new value makes
  the view render again; the effect depends on \<^verbatim>\<open>sessionId\<close>, so the cleanup of its
  previous run sets that run's \<^verbatim>\<open>mounted\<close> to false before the effect runs again. Every
  pending start call of the effect belongs to a previous run.
\<close>

definition unmount :: "Pending \<Rightarrow> Pending" where
  "unmount p = (case p of PendingEffect m \<Rightarrow> PendingEffect False | PendingSend x l \<Rightarrow> p)"

definition setSessionId :: "string option \<Rightarrow> ViewState \<Rightarrow> ViewState" where
  "setSessionId v st =
     (if sessionId_state st = v then st
      else st\<lparr>sessionId_state := v, pending_starts := map unmount (pending_starts st)\<rparr>)"

text \<open>
  \<^verbatim>\<open>ensureSidAndGreeting\<close> (lines 152 to 168) up to its \<^verbatim>\<open>await\<close>. With an identifier in the
  storage it runs to its end at once, \<^verbatim>\<open>mounted\<close> still true: it sets \<^verbatim>\<open>sessionId\<close>; the
  effect then runs again, finds a \<^verbatim>\<open>sessionId\<close> and does nothing. Without an identifier in
  the storage it issues the start call and waits.
\<close>

definition ensureSidAndGreeting :: "ViewState \<Rightarrow> ViewState \<times> ClientCall list" where
  "ensureSidAndGreeting st =
     (let sid = localStorage st SID_KEY in
      if \<not> str_truthy sid
      then (st\<lparr>pending_starts := pending_starts st @ [PendingEffect True]\<rparr>, [CallStart])
      else (setSessionId sid st, []))"

text \<open>
  The effect (lines 149 to 175): it runs when the view is mounted and after every change
  of \<^verbatim>\<open>sessionId\<close>, and calls \<^verbatim>\<open>ensureSidAndGreeting\<close> while there is no \<^verbatim>\<open>sessionId\<close>.
\<close>

definition sessionEffect :: "ViewState \<Rightarrow> ViewState \<times> ClientCall list" where
  "sessionEffect st =
     (if \<not> str_truthy (sessionId_state st) then ensureSidAndGreeting st else (st, []))"

text \<open>
  The end of a handler that may have called \<^verbatim>\<open>setSessionId\<close>: if the value is not the one
  the handler found (\<open>old\<close>), the view renders again and the effect runs.
\<close>

definition rerender :: "string option \<Rightarrow> ViewState \<Rightarrow> ViewState \<times> ClientCall list" where
  "rerender old st = (if sessionId_state st = old then (st, []) else sessionEffect st)"

text \<open>
  The rest of \<^verbatim>\<open>ensureSidAndGreeting\<close> after the \<^verbatim>\<open>await\<close> (lines 158 to 167), with the answer
  of the backend, the clock and the \<^verbatim>\<open>mounted\<close> flag of its run: the identifier is stored
  whatever the flag says; the greeting and \<^verbatim>\<open>setSessionId\<close> happen only if it is true.
\<close>

definition ensureSidAndGreeting_resume ::
    "bool \<Rightarrow> StartResult \<Rightarrow> nat \<Rightarrow> ViewState \<Rightarrow> ViewState \<times> ClientCall list" where
  "ensureSidAndGreeting_resume mounted answer now st =
     (let sid = session_id answer;
          st1 = st\<lparr>localStorage := (localStorage st)(SID_KEY \<mapsto> sid)\<rparr>;
          st2 = (if mounted \<and> start_reply answer \<noteq> []
                 then st1\<lparr>messages_state := messages_state st1 @
                        [\<lparr>role = Assistant, content = start_reply answer,
                          timestamp = Some now\<rparr>]\<rparr>
                 else st1)
      in if mounted then rerender (sessionId_state st) (setSessionId (Some sid) st2)
         else (st2, []))"

text \<open>
  The end of \<^verbatim>\<open>sendMessage\<close> (lines 215 to 230, up to the point where the chat request is
  issued): the user message, the composer cleared, the typing flag, and the request
  handed to \<^verbatim>\<open>askBackend\<close> with the identifier \<open>sid\<close>. How the response is rendered
  afterwards is not modelled; it touches neither the identifier nor the storage.
\<close>

definition submitUserMessage ::
    "string \<Rightarrow> string \<Rightarrow> Locale \<Rightarrow> nat \<Rightarrow> ViewState \<Rightarrow> ViewState \<times> ClientCall list" where
  "submitUserMessage sid text loc now st =
     (let userMessage = \<lparr>role = User, content = trim text, timestamp = Some now\<rparr>
      in (st\<lparr>messages_state := messages_state st @ [userMessage],
             input_state := '''', isTyping_state := True\<rparr>,
          [CallAskBackend \<lparr>message = Some (trim text), messages = None,
                           sessionId = Some sid, req_locale = Some loc\<rparr>]))"

text \<open>
  \<^verbatim>\<open>sendMessage\<close> (lines 195 to 230) up to its first \<^verbatim>\<open>await\<close>: the guard on blank input,
  then \<^verbatim>\<open>sessionId || localStorage.getItem(SID_KEY)\<close>. With an identifier it goes on to the
  chat request; without one it issues the start call and waits, keeping the text and the
  locale of the render it was called from.
\<close>

definition sendMessage :: "string \<Rightarrow> nat \<Rightarrow> ViewState \<Rightarrow> ViewState \<times> ClientCall list" where
  "sendMessage text now st =
     (if trim text = [] then (st, [])
      else (let sid = (if str_truthy (sessionId_state st) then sessionId_state st
                       else localStorage st SID_KEY)
            in if \<not> str_truthy sid
               then (st\<lparr>pending_starts := pending_starts st @
                          [PendingSend text (locale_state st)]\<rparr>, [CallStart])
               else submitUserMessage (the sid) text (locale_state st) now st))"

text \<open>
  The rest of \<^verbatim>\<open>sendMessage\<close> after the start call has answered (lines 204 to 230): the
  identifier is stored, \<^verbatim>\<open>setSessionId\<close> is called, the greeting is appended if there is
  one, and the chat request goes out with the new identifier. The view renders again
  after that.
\<close>

definition sendMessage_resume ::
    "string \<Rightarrow> Locale \<Rightarrow> StartResult \<Rightarrow> nat \<Rightarrow> nat \<Rightarrow> ViewState
      \<Rightarrow> ViewState \<times> ClientCall list" where
  "sendMessage_resume text loc answer now1 now2 st =
     (let sid = session_id answer;
          st1 = setSessionId (Some sid) (st\<lparr>localStorage := (localStorage st)(SID_KEY \<mapsto> sid)\<rparr>);
          st2 = (if start_reply answer \<noteq> []
                 then st1\<lparr>messages_state := messages_state st1 @
                        [\<lparr>role = Assistant, content = start_reply answer,
                          timestamp = Some now1\<rparr>]\<rparr>
                 else st1);
          (st3, calls3) = submitUserMessage sid text loc now2 st2;
          (st4, calls4) = rerender (sessionId_state st) st3
      in (st4, calls3 @ calls4))"

text \<open>
  Loading the page again: the view starts from its initial state with the locale \<open>loc\<close>
  that \<^verbatim>\<open>detectLocale\<close> finds, nothing of the old page is pending any more, the storage is
  what it was, and the effect runs.
\<close>

definition reload :: "Locale \<Rightarrow> ViewState \<Rightarrow> ViewState \<times> ClientCall list" where
  "reload loc st =
     sessionEffect
       \<lparr>locale_state = loc, messages_state = [], sessionId_state = None, input_state = '''',
        isTyping_state = False, localStorage = localStorage st, pending_starts = []\<rparr>"

text \<open>
  What happens to the view, one piece of a handler at a time: the view is mounted and the
  effect runs; the page is loaded again; \<^verbatim>\<open>sendMessage\<close> is called with a text (by the
  composer, a quick reply or a retry); or the pending start call number \<open>k\<close> is answered
  and the handler that waited for it goes on. Between the two parts of a handler any
  other event may come. A run collects the client calls of all steps. The message list of
  the model holds what these handler parts append, not the rendered responses.
\<close>

datatype Event =
    Mount
  | Reload Locale
  | Submit string nat
  | Answer nat StartResult nat nat

fun step :: "Event \<Rightarrow> ViewState \<Rightarrow> ViewState \<times> ClientCall list" where
  "step Mount st = sessionEffect st"
| "step (Reload loc) st = reload loc st"
| "step (Submit text now) st = sendMessage text now st"
| "step (Answer k answer now1 now2) st =
     (if k < length (pending_starts st)
      then (let st1 = st\<lparr>pending_starts :=
                          take k (pending_starts st) @ drop (Suc k) (pending_starts st)\<rparr>
            in case pending_starts st ! k of
                 PendingEffect mounted \<Rightarrow> ensureSidAndGreeting_resume mounted answer now1 st1
               | PendingSend text loc \<Rightarrow> sendMessage_resume text loc answer now1 now2 st1)
      else (st, []))"

fun run :: "Event list \<Rightarrow> ViewState \<Rightarrow> ViewState \<times> ClientCall list" where
  "run [] st = (st, [])"
| "run (ev # evs) st =
     (let (st1, calls1) = step ev st; (st2, calls2) = run evs st1 in (st2, calls1 @ calls2))"

section \<open>The specification's statements as definitions\<close>

text \<open>
  The specification describes the two adapters by field presence: a field of the body is
  taken when the body has it. \<^verbatim>\<open>||\<close> in the code takes a field when its value is truthy.
  Both readings are written down here, to be compared with the code above.
\<close>

text \<open>The own property \<open>p\<close> of a parsed body, if the body is an object that has it.\<close>

definition body_field :: "jsval \<Rightarrow> string \<Rightarrow> jsval option" where
  "body_field b p = (case b of Obj kvs \<Rightarrow> map_of kvs p | _ \<Rightarrow> None)"

definition field_val :: "jsval \<Rightarrow> string \<Rightarrow> jsval" where
  "field_val b p = (case body_field b p of None \<Rightarrow> Undefined | Some v \<Rightarrow> v)"

text \<open>The first field that is present, else the default.\<close>

fun first_present :: "jsval option list \<Rightarrow> jsval \<Rightarrow> jsval" where
  "first_present [] d = d"
| "first_present (None # fs) d = first_present fs d"
| "first_present (Some v # fs) d = v"

text \<open>The first value that is truthy, else the default.\<close>

fun first_truthy :: "jsval list \<Rightarrow> jsval \<Rightarrow> jsval" where
  "first_truthy [] d = d"
| "first_truthy (v # vs) d = (if truthy v then v else first_truthy vs d)"

text \<open>The category table of the error classifier: exact code first, then the status.\<close>

definition code_table :: "(string \<times> string) list" where
  "code_table =
     [(''quota_exceeded'', ''quota_exceeded''), (''rate_limit'', ''quota_exceeded''),
      (''billing_not_active'', ''billing_not_active''),
      (''payment_required'', ''billing_not_active''),
      (''invalid_api_key'', ''invalid_api_key''), (''unauthorized'', ''invalid_api_key''),
      (''timeout'', ''timeout'')]"

definition spec_category :: "jsval \<Rightarrow> nat \<Rightarrow> jsval \<Rightarrow> jsval" where
  "spec_category c st raw =
     (case (case c of Str s \<Rightarrow> map_of code_table s | _ \<Rightarrow> None) of
        Some k \<Rightarrow> Str k
      | None \<Rightarrow>
          if st \<ge> 500 then Str ''server_error''
          else if st \<in> {401, 403} then Str ''invalid_api_key''
          else if st = 429 then Str ''quota_exceeded''
          else raw)"

text \<open>The body the classifier works on: the parsed value, or the empty object.\<close>

definition parsed_body :: "Response \<Rightarrow> jsval" where
  "parsed_body response = (case json response of Inl _ \<Rightarrow> Obj [] | Inr d \<Rightarrow> d)"

text \<open>The error classifier as the specification words it, by field presence.\<close>

definition spec_classifier :: "Response \<Rightarrow> ChatResponse" where
  "spec_classifier response =
     (let body = parsed_body response; st = status response;
          c = first_present [body_field body ''code'', body_field body ''error_code'']
                (Str (''http_'' @ show_nat st));
          raw = first_present [body_field body ''error'', body_field body ''message'']
                (Str (''HTTP '' @ show_nat st))
      in \<lparr>reply = Str '''', suggestions = Undefined, resp_sessionId = Undefined,
          error = spec_category c st raw, code = c\<rparr>)"

text \<open>The same classifier with every "field, else" read as "truthy field, else".\<close>

definition truthy_classifier :: "Response \<Rightarrow> ChatResponse" where
  "truthy_classifier response =
     (let body = parsed_body response; st = status response;
          c = first_truthy [field_val body ''code'', field_val body ''error_code'']
                (Str (''http_'' @ show_nat st));
          raw = first_truthy [field_val body ''error'', field_val body ''message'']
                (Str (''HTTP '' @ show_nat st))
      in \<lparr>reply = Str '''', suggestions = Undefined, resp_sessionId = Undefined,
          error = spec_category c st raw, code = c\<rparr>)"

text \<open>The normalisation of a success body as the specification words it, by presence.\<close>

definition spec_normalize :: "ChatRequest \<Rightarrow> jsval \<Rightarrow> ChatResponse" where
  "spec_normalize request data =
     \<lparr>reply = first_present [body_field data ''reply'', body_field data ''message'',
                             body_field data ''content''] (Str ''''),
      suggestions = first_present [body_field data ''suggestions'',
                                   body_field data ''quick_replies''] (Arr []),
      resp_sessionId = first_present [body_field data ''session_id'',
                                      body_field data ''sessionId''] (opt_str (sessionId request)),
      error = Undefined, code = Undefined\<rparr>"

text \<open>The same normalisation by truthiness.\<close>

definition truthy_normalize :: "ChatRequest \<Rightarrow> jsval \<Rightarrow> ChatResponse" where
  "truthy_normalize request data =
     \<lparr>reply = first_truthy [field_val data ''reply'', field_val data ''message'',
                            field_val data ''content''] (Str ''''),
      suggestions = first_truthy [field_val data ''suggestions'',
                                  field_val data ''quick_replies''] (Arr []),
      resp_sessionId = first_truthy [field_val data ''session_id'',
                                     field_val data ''sessionId''] (opt_str (sessionId request)),
      error = Undefined, code = Undefined\<rparr>"

text \<open>
  The exclusive-channel invariant of a response: no error, or an error and an empty reply.
\<close>

definition exclusive_channel :: "ChatResponse \<Rightarrow> bool" where
  "exclusive_channel r = (error r = Undefined \<or> (error r \<noteq> Undefined \<and> reply r = Str ''''))"

subsection \<open>Sample inputs\<close>

text \<open>The message of V8's TypeError for a property read on \<^verbatim>\<open>null\<close>.\<close>

definition v8_TypeError :: "string \<Rightarrow> string" where
  "v8_TypeError p =
     ''Cannot read properties of null (reading '' @ [CHR 0x27] @ p @ [CHR 0x27] @ '')''"

text \<open>A backend that answers every request with the same status and body.\<close>

definition answers :: "nat \<Rightarrow> jsval \<Rightarrow> transport" where
  "answers st body = (\<lambda>q. Inr \<lparr>status = st, json = Inr body\<rparr>)"

text \<open>A transport on which every request fails with the given exception.\<close>

definition fails :: "thrown \<Rightarrow> transport" where
  "fails e = (\<lambda>q. Inl e)"

definition hello_request :: ChatRequest where
  "hello_request =
     \<lparr>message = Some ''hello'', messages = None, sessionId = Some ''s1'', req_locale = Some En\<rparr>"

definition help_escalation :: EscalateRequest where
  "help_escalation =
     \<lparr>esc_sessionId = ''s1'', reason = ''user_requested'',
      transcript = [\<lparr>role = User, content = ''help'', timestamp = Some 1\<rparr>]\<rparr>"

subsection \<open>Keywords in a message\<close>

text \<open>
  \<open>lit_at w s i\<close>: the text \<open>w\<close> stands in \<open>s\<close> at position \<open>i\<close>, letter case ignored. A
  standalone word is such an occurrence with a word boundary on both sides; a word start
  has the boundary in front only, so the word may go on.
\<close>

definition lit_at :: "string \<Rightarrow> string \<Rightarrow> nat \<Rightarrow> bool" where
  "lit_at w s i = (map canonicalize (take (length w) (drop i s)) = map canonicalize w)"

definition standalone_word :: "string \<Rightarrow> string \<Rightarrow> bool" where
  "standalone_word w s =
     list_ex (\<lambda>i. at_boundary s i \<and> lit_at w s i \<and> at_boundary s (i + length w))
       [0..<Suc (length s)]"

definition word_start :: "string \<Rightarrow> string \<Rightarrow> bool" where
  "word_start w s = list_ex (\<lambda>i. at_boundary s i \<and> lit_at w s i) [0..<Suc (length s)]"

subsection \<open>An established session\<close>

text \<open>
  The identifier \<open>sid\<close> is stored under the key, it is not empty, the view's own
  \<^verbatim>\<open>sessionId\<close>, where it holds a non-empty text, holds the same one, and no start call is
  pending.
\<close>

definition session_established :: "string \<Rightarrow> ViewState \<Rightarrow> bool" where
  "session_established sid st =
     (sid \<noteq> [] \<and> localStorage st SID_KEY = Some sid
      \<and> (str_truthy (sessionId_state st) \<longrightarrow> sessionId_state st = Some sid)
      \<and> pending_starts st = [])"

text \<open>A client call that is a chat request carrying \<open>sid\<close>; a start call is none.\<close>

definition asks_with :: "string \<Rightarrow> ClientCall \<Rightarrow> bool" where
  "asks_with sid c =
     (case c of CallStart \<Rightarrow> False | CallAskBackend rq \<Rightarrow> sessionId rq = Some sid)"

subsection \<open>Sample inputs of the view\<close>

definition user_says :: "string \<Rightarrow> Message" where
  "user_says s = \<lparr>role = User, content = s, timestamp = Some 0\<rparr>"

text \<open>The view right after loading, in a browser that has stored nothing.\<close>

definition fresh_view :: ViewState where
  "fresh_view =
     \<lparr>locale_state = En, messages_state = [], sessionId_state = None, input_state = '''',
      isTyping_state = False, localStorage = Map.empty, pending_starts = []\<rparr>"

text \<open>Three answers to a start call; the last one carries the empty identifier.\<close>

definition abc_answer :: StartResult where
  "abc_answer = \<lparr>session_id = ''abc'', start_reply = ''Hi''\<rparr>"

definition zzz_answer :: StartResult where
  "zzz_answer = \<lparr>session_id = ''zzz'', start_reply = ''Hello again''\<rparr>"

definition empty_answer :: StartResult where
  "empty_answer = \<lparr>session_id = '''', start_reply = ''Hi''\<rparr>"

text \<open>A backend that has issued one identifier so far.\<close>

definition busy_backend :: Backend where
  "busy_backend = \<lparr>issued = [''abc''], greeting = ''Hi''\<rparr>"

section \<open>Properties of the chat client\<close>

subsection \<open>Auxiliary facts\<close>

lemma show_nat_samples:
  "show_nat 200 = ''200''" "show_nat 400 = ''400''" "show_nat 404 = ''404''"
  "show_nat 429 = ''429''" "show_nat 500 = ''500''" "show_nat 503 = ''503''"
  by (simp_all add: show_nat.simps digit_def)

lemma show_nat_nonempty: "show_nat n \<noteq> []"
  by (subst show_nat.simps) simp

lemma includes_str_sublist: "includes_str s sub = sublist sub s"
  by (induction s) (auto simp: sublist_Cons_right)

lemma getField_field_val:
  "d \<noteq> Null \<Longrightarrow> d \<noteq> Undefined \<Longrightarrow> getField E d p = Inr (field_val d p)"
  by (cases d) (simp_all add: field_val_def body_field_def)

lemma errorCategory_table: "errorCategory c st raw = spec_category c st raw"
  by (cases c) (simp_all add: errorCategory_def spec_category_def code_table_def)

lemma js_or_truthy: "truthy b \<Longrightarrow> truthy (js_or a b)"
  by (simp add: js_or_def)

lemma errorCategory_truthy: "truthy raw \<Longrightarrow> truthy (errorCategory c st raw)"
  by (simp add: errorCategory_def)

lemma handleErrorResponse_truthy:
  assumes "parsed_body response \<noteq> Null" "parsed_body response \<noteq> Undefined"
  shows "handleErrorResponse E response = Inr (truthy_classifier response)"
proof -
  have g: "\<And>p. getField E (parsed_body response) p = Inr (field_val (parsed_body response) p)"
    using assms by (simp add: getField_field_val)
  show ?thesis
    unfolding handleErrorResponse_def truthy_classifier_def parsed_body_def [symmetric]
    by (simp add: g Let_def js_or_def errorCategory_table)
qed

lemma handleErrorResponse_shape:
  "handleErrorResponse E response = Inr r \<Longrightarrow>
     reply r = Str '''' \<and> truthy (error r) \<and> truthy (code r)"
  by (auto simp: handleErrorResponse_def Let_def js_or_truthy errorCategory_truthy
      split: sum.splits)

lemma handleErrorResponse_null:
  "handleErrorResponse E \<lparr>status = st, json = Inr Null\<rparr> = Inl (JsError (E ''code''))"
  by (simp add: handleErrorResponse_def)

lemma handleNetworkError_shape:
  "reply (handleNetworkError e) = Str '''' \<and> truthy (error (handleNetworkError e))"
  by (simp add: handleNetworkError_def Let_def)

lemma adaptResponse_truthy:
  assumes "data \<noteq> Null" "data \<noteq> Undefined"
  shows "adaptResponse E request data = Inr (truthy_normalize request data)"
proof -
  have g: "\<And>p. getField E data p = Inr (field_val data p)"
    using assms by (simp add: getField_field_val)
  show ?thesis
    by (simp add: adaptResponse_def truthy_normalize_def g js_or_def)
qed

lemma adaptResponse_error_absent:
  "adaptResponse E request data = Inr r \<Longrightarrow> error r = Undefined"
  by (auto simp: adaptResponse_def split: sum.splits)

lemma askBackend_cases:
  "askBackend E fetch request = Inr r \<Longrightarrow>
     (\<exists>e. r = handleNetworkError e)
     \<or> (\<exists>response. handleErrorResponse E response = Inr r)
     \<or> (\<exists>data. adaptResponse E request data = Inr r)"
  by (auto simp: askBackend_def split: sum.splits if_splits)

text \<open>
  A failed response whose body is the JSON value \<^verbatim>\<open>null\<close> makes the classifier throw;
  \<^verbatim>\<open>askBackend\<close> then rejects, while \<^verbatim>\<open>escalate\<close> catches the TypeError and classifies it as
  a transport failure.
\<close>

lemma askBackend_null_error_body:
  "\<not> (200 \<le> st \<and> st \<le> 299) \<Longrightarrow>
     askBackend E (answers st Null) request = Inl (JsError (E ''code''))"
  by (simp add: askBackend_def answers_def response_ok_def handleErrorResponse_null)

lemma escalate_null_error_body:
  "\<not> (200 \<le> st \<and> st \<le> 299) \<Longrightarrow>
     escalate E (answers st Null) request =
       \<lparr>success = False, esc_error = error (handleNetworkError (JsError (E ''code'')))\<rparr>"
  by (simp add: escalate_def answers_def response_ok_def handleErrorResponse_null)

subsection \<open>The error classifier\<close>

text \<open>
  C1 (as amended). For every failed response whose body does not parse or parses to a
  value other than \<^verbatim>\<open>null\<close>, the classifier returns an empty reply, the code that is the
  first truthy one of the body's \<^verbatim>\<open>code\<close> and \<^verbatim>\<open>error_code\<close> fields, else \<^verbatim>\<open>http_{status}\<close>,
  and the category given by exact match of that code in the table, else by the status
  (at least 500, 401 or 403, 429), else the raw message: the first truthy one of the
  body's \<^verbatim>\<open>error\<close> and \<^verbatim>\<open>message\<close> fields, else \<^verbatim>\<open>HTTP {status}\<close>. A 429 with body
  \<^verbatim>\<open>{error_code: "rate_limit"}\<close> yields \<^verbatim>\<open>quota_exceeded\<close> with code \<^verbatim>\<open>rate_limit\<close>, and a 500
  whose body does not parse yields \<^verbatim>\<open>server_error\<close>.
\<close>

theorem error_classifier_first_truthy:
  "(parsed_body response \<noteq> Null \<and> parsed_body response \<noteq> Undefined \<longrightarrow>
      handleErrorResponse E response = Inr (truthy_classifier response))
   \<and> handleErrorResponse E
        \<lparr>status = 429, json = Inr (Obj [(''error_code'', Str ''rate_limit'')])\<rparr>
       = Inr \<lparr>reply = Str '''', suggestions = Undefined, resp_sessionId = Undefined,
               error = Str ''quota_exceeded'', code = Str ''rate_limit''\<rparr>
   \<and> handleErrorResponse E \<lparr>status = 500, json = Inl e\<rparr>
       = Inr \<lparr>reply = Str '''', suggestions = Undefined, resp_sessionId = Undefined,
               error = Str ''server_error'', code = Str ''http_500''\<rparr>"
proof (intro conjI impI)
  assume "parsed_body response \<noteq> Null \<and> parsed_body response \<noteq> Undefined"
  then show "handleErrorResponse E response = Inr (truthy_classifier response)"
    by (simp add: handleErrorResponse_truthy)
next
  show "handleErrorResponse E
          \<lparr>status = 429, json = Inr (Obj [(''error_code'', Str ''rate_limit'')])\<rparr>
       = Inr \<lparr>reply = Str '''', suggestions = Undefined, resp_sessionId = Undefined,
               error = Str ''quota_exceeded'', code = Str ''rate_limit''\<rparr>"
    by (simp add: handleErrorResponse_def js_or_def errorCategory_def)
next
  show "handleErrorResponse E \<lparr>status = 500, json = Inl e\<rparr>
       = Inr \<lparr>reply = Str '''', suggestions = Undefined, resp_sessionId = Undefined,
               error = Str ''server_error'', code = Str ''http_500''\<rparr>"
    by (simp add: handleErrorResponse_def js_or_def errorCategory_def show_nat_samples)
qed

text \<open>A 404 with body \<^verbatim>\<open>{message: "Not found"}\<close> keeps the raw message as its category.\<close>

theorem error_classifier_first_truthy_witness:
  "parsed_body \<lparr>status = 404, json = Inr (Obj [(''message'', Str ''Not found'')])\<rparr> \<noteq> Null
   \<and> parsed_body \<lparr>status = 404, json = Inr (Obj [(''message'', Str ''Not found'')])\<rparr>
        \<noteq> Undefined
   \<and> handleErrorResponse v8_TypeError
        \<lparr>status = 404, json = Inr (Obj [(''message'', Str ''Not found'')])\<rparr>
       = Inr \<lparr>reply = Str '''', suggestions = Undefined, resp_sessionId = Undefined,
               error = Str ''Not found'', code = Str ''http_404''\<rparr>"
  using error_classifier_first_truthy
    [of "\<lparr>status = 404, json = Inr (Obj [(''message'', Str ''Not found'')])\<rparr>" v8_TypeError]
  by (simp add: parsed_body_def truthy_classifier_def field_val_def body_field_def
      spec_category_def code_table_def show_nat_samples)

text \<open>
  C1 as stated fails on a 400 with body \<^verbatim>\<open>{code: "", error_code: "rate_limit"}\<close>: the body
  has a \<^verbatim>\<open>code\<close> field, which no table entry matches, yet the classifier skips it and
  reports \<^verbatim>\<open>quota_exceeded\<close> with code \<^verbatim>\<open>rate_limit\<close>.
\<close>

theorem error_classifier_presence_counterexample:
  "handleErrorResponse v8_TypeError
      \<lparr>status = 400,
       json = Inr (Obj [(''code'', Str ''''), (''error_code'', Str ''rate_limit'')])\<rparr>
     = Inr \<lparr>reply = Str '''', suggestions = Undefined, resp_sessionId = Undefined,
             error = Str ''quota_exceeded'', code = Str ''rate_limit''\<rparr>
   \<and> spec_classifier
      \<lparr>status = 400,
       json = Inr (Obj [(''code'', Str ''''), (''error_code'', Str ''rate_limit'')])\<rparr>
     = \<lparr>reply = Str '''', suggestions = Undefined, resp_sessionId = Undefined,
        error = Str ''HTTP 400'', code = Str ''''\<rparr>"
  by (simp add: handleErrorResponse_def js_or_def errorCategory_def spec_classifier_def
      parsed_body_def body_field_def spec_category_def code_table_def show_nat_samples Let_def)

subsection \<open>Normalising a success body\<close>

text \<open>
  C2 (as amended). For every 2xx response whose body parses to a value other than
  \<^verbatim>\<open>null\<close>, \<^verbatim>\<open>askBackend\<close> returns the normalisation by truthiness: reply is the first truthy
  one of the body's \<^verbatim>\<open>reply\<close>, \<^verbatim>\<open>message\<close> and \<^verbatim>\<open>content\<close> fields, else the empty string;
  suggestions is the first truthy one of \<^verbatim>\<open>suggestions\<close> and \<^verbatim>\<open>quick_replies\<close>, else the empty
  list; sessionId is the first truthy one of \<^verbatim>\<open>session_id\<close> and \<^verbatim>\<open>sessionId\<close>, else the
  request's sessionId; and there is no error field.
\<close>

theorem success_normalization_first_truthy:
  assumes "fetch (chat_call request) = Inr response" and "response_ok response"
    and "json response = Inr data" and "data \<noteq> Null" and "data \<noteq> Undefined"
  shows "askBackend E fetch request = Inr (truthy_normalize request data)"
  using assms by (simp add: askBackend_def adaptResponse_truthy)

text \<open>
  A body with both \<^verbatim>\<open>reply\<close> and \<^verbatim>\<open>message\<close> yields the reply; \<^verbatim>\<open>quick_replies\<close> and
  \<^verbatim>\<open>sessionId\<close> stand in for the fields that are missing.
\<close>

theorem success_normalization_first_truthy_witness:
  "answers 200 (Obj [(''reply'', Str ''Hi''), (''message'', Str ''Hello''),
                     (''quick_replies'', Arr [Str ''Yes'', Str ''No'']),
                     (''sessionId'', Str ''abc'')]) (chat_call hello_request)
     = Inr \<lparr>status = 200,
            json = Inr (Obj [(''reply'', Str ''Hi''), (''message'', Str ''Hello''),
                             (''quick_replies'', Arr [Str ''Yes'', Str ''No'']),
                             (''sessionId'', Str ''abc'')])\<rparr>
   \<and> response_ok \<lparr>status = 200,
            json = Inr (Obj [(''reply'', Str ''Hi''), (''message'', Str ''Hello''),
                             (''quick_replies'', Arr [Str ''Yes'', Str ''No'']),
                             (''sessionId'', Str ''abc'')])\<rparr>
   \<and> askBackend v8_TypeError
        (answers 200 (Obj [(''reply'', Str ''Hi''), (''message'', Str ''Hello''),
                           (''quick_replies'', Arr [Str ''Yes'', Str ''No'']),
                           (''sessionId'', Str ''abc'')])) hello_request
     = Inr \<lparr>reply = Str ''Hi'', suggestions = Arr [Str ''Yes'', Str ''No''],
            resp_sessionId = Str ''abc'', error = Undefined, code = Undefined\<rparr>"
  using success_normalization_first_truthy
    [of "answers 200 (Obj [(''reply'', Str ''Hi''), (''message'', Str ''Hello''),
                           (''quick_replies'', Arr [Str ''Yes'', Str ''No'']),
                           (''sessionId'', Str ''abc'')])"
        hello_request
        "\<lparr>status = 200,
          json = Inr (Obj [(''reply'', Str ''Hi''), (''message'', Str ''Hello''),
                           (''quick_replies'', Arr [Str ''Yes'', Str ''No'']),
                           (''sessionId'', Str ''abc'')])\<rparr>"
        "Obj [(''reply'', Str ''Hi''), (''message'', Str ''Hello''),
              (''quick_replies'', Arr [Str ''Yes'', Str ''No'']),
              (''sessionId'', Str ''abc'')]"
        v8_TypeError]
  by (simp add: answers_def response_ok_def truthy_normalize_def field_val_def body_field_def)

text \<open>
  C2 as stated fails on the 2xx body \<^verbatim>\<open>{reply: "", message: "hi"}\<close>: it contains both
  \<^verbatim>\<open>reply\<close> and \<^verbatim>\<open>message\<close>, and the returned reply is the message, not the reply.
\<close>

theorem success_normalization_presence_counterexample:
  "askBackend v8_TypeError
      (answers 200 (Obj [(''reply'', Str ''''), (''message'', Str ''hi'')])) hello_request
     = Inr \<lparr>reply = Str ''hi'', suggestions = Arr [], resp_sessionId = Str ''s1'',
            error = Undefined, code = Undefined\<rparr>
   \<and> spec_normalize hello_request (Obj [(''reply'', Str ''''), (''message'', Str ''hi'')])
     = \<lparr>reply = Str '''', suggestions = Arr [], resp_sessionId = Str ''s1'',
        error = Undefined, code = Undefined\<rparr>"
  by (simp add: askBackend_def answers_def response_ok_def adaptResponse_def js_or_def
      spec_normalize_def body_field_def hello_request_def opt_str_def)

subsection \<open>The request body\<close>

text \<open>
  C3 (as amended). The body object built by \<^verbatim>\<open>askBackend\<close> carries \<^verbatim>\<open>messages\<close> and not
  \<^verbatim>\<open>message\<close> whenever the request's list is present and non-empty; carries \<^verbatim>\<open>message\<close> and
  not \<^verbatim>\<open>messages\<close> when the list is absent or empty and the single message is present and
  not the empty string; and always has the keys \<^verbatim>\<open>session_id\<close> and \<^verbatim>\<open>locale\<close> with the
  request's values (\<^verbatim>\<open>undefined\<close> when the request has none).
\<close>

theorem request_body_fields:
  "((\<exists>ms. messages request = Some ms \<and> ms \<noteq> []) \<longrightarrow>
       map_of (buildBody request) ''messages''
         = Some (Arr (map message_val (the (messages request))))
       \<and> map_of (buildBody request) ''message'' = None)
   \<and> ((messages request = None \<or> messages request = Some [])
        \<and> (\<exists>m. message request = Some m \<and> m \<noteq> []) \<longrightarrow>
       map_of (buildBody request) ''message'' = Some (Str (the (message request)))
       \<and> map_of (buildBody request) ''messages'' = None)
   \<and> map_of (buildBody request) ''session_id'' = Some (opt_str (sessionId request))
   \<and> map_of (buildBody request) ''locale'' = Some (opt_locale (req_locale request))
   \<and> payload (chat_call request) = Some (Obj (buildBody request))"
  by (auto simp: buildBody_def chat_call_def split: option.splits)

theorem request_body_fields_witness:
  "map_of (buildBody \<lparr>message = Some ''one'',
                       messages = Some [\<lparr>role = User, content = ''two'', timestamp = None\<rparr>],
                       sessionId = None, req_locale = Some It\<rparr>) ''messages''
     = Some (Arr [Obj [(''role'', Str ''user''), (''content'', Str ''two'')]])
   \<and> map_of (buildBody \<lparr>message = Some ''one'',
                       messages = Some [\<lparr>role = User, content = ''two'', timestamp = None\<rparr>],
                       sessionId = None, req_locale = Some It\<rparr>) ''message'' = None
   \<and> map_of (buildBody \<lparr>message = Some ''one'',
                       messages = Some [\<lparr>role = User, content = ''two'', timestamp = None\<rparr>],
                       sessionId = None, req_locale = Some It\<rparr>) ''session_id'' = Some Undefined
   \<and> map_of (buildBody hello_request) ''message'' = Some (Str ''hello'')
   \<and> map_of (buildBody hello_request) ''messages'' = None
   \<and> map_of (buildBody hello_request) ''locale'' = Some (Str ''en'')"
  using request_body_fields
    [of "\<lparr>message = Some ''one'',
          messages = Some [\<lparr>role = User, content = ''two'', timestamp = None\<rparr>],
          sessionId = None, req_locale = Some It\<rparr>"]
    request_body_fields [of hello_request]
  by (simp add: hello_request_def message_val_def opt_str_def opt_locale_def)

text \<open>
  C3 as stated fails on the request \<^verbatim>\<open>{message: ""}\<close>: no list, a single message present,
  and the body carries no \<^verbatim>\<open>message\<close> key.
\<close>

theorem request_body_empty_message_counterexample:
  "messages \<lparr>message = Some '''', messages = None, sessionId = Some ''s1'',
             req_locale = Some En\<rparr> = None
   \<and> message \<lparr>message = Some '''', messages = None, sessionId = Some ''s1'',
             req_locale = Some En\<rparr> = Some ''''
   \<and> map_of (buildBody \<lparr>message = Some '''', messages = None, sessionId = Some ''s1'',
                        req_locale = Some En\<rparr>) ''message'' = None"
  by (simp add: buildBody_def)

text \<open>
  On the wire the two keys appear exactly when the request has the values: the serialised
  body of a request without \<^verbatim>\<open>sessionId\<close> has no \<^verbatim>\<open>session_id\<close> key.
\<close>

lemma wire_keys_buildBody:
  "(''session_id'' \<in> set (wire_keys (buildBody request)) \<longleftrightarrow> sessionId request \<noteq> None)
   \<and> (''locale'' \<in> set (wire_keys (buildBody request)) \<longleftrightarrow> req_locale request \<noteq> None)"
  by (auto simp: wire_keys_def buildBody_def opt_str_def opt_locale_def split: option.splits)

subsection \<open>The exclusive-channel invariant\<close>

text \<open>
  C4. Every response produced by \<^verbatim>\<open>askBackend\<close>, by the error classifier and by the
  network-error classifier has no error field, or has one together with the empty reply.
\<close>

theorem exclusive_channel_invariant:
  "(askBackend E fetch request = Inr r \<longrightarrow> exclusive_channel r)
   \<and> (handleErrorResponse E response = Inr r' \<longrightarrow> exclusive_channel r')
   \<and> exclusive_channel (handleNetworkError e)"
proof (intro conjI impI)
  show n: "exclusive_channel (handleNetworkError e)" for e
    using handleNetworkError_shape [of e] by (auto simp: exclusive_channel_def)
  show h: "exclusive_channel r'" if "handleErrorResponse E response = Inr r'" for response r'
    using handleErrorResponse_shape [OF that] by (auto simp: exclusive_channel_def)
  assume "askBackend E fetch request = Inr r"
  from askBackend_cases [OF this] show "exclusive_channel r"
    using n h adaptResponse_error_absent by (auto simp: exclusive_channel_def)
qed

theorem exclusive_channel_invariant_witness:
  "askBackend v8_TypeError (answers 200 (Obj [(''content'', Str ''Hi'')])) hello_request
     = Inr \<lparr>reply = Str ''Hi'', suggestions = Arr [], resp_sessionId = Str ''s1'',
            error = Undefined, code = Undefined\<rparr>
   \<and> exclusive_channel \<lparr>reply = Str ''Hi'', suggestions = Arr [], resp_sessionId = Str ''s1'',
            error = Undefined, code = Undefined\<rparr>
   \<and> handleErrorResponse v8_TypeError \<lparr>status = 503, json = Inl (JsError ''bad json'')\<rparr>
     = Inr \<lparr>reply = Str '''', suggestions = Undefined, resp_sessionId = Undefined,
            error = Str ''server_error'', code = Str ''http_503''\<rparr>
   \<and> exclusive_channel \<lparr>reply = Str '''', suggestions = Undefined, resp_sessionId = Undefined,
            error = Str ''server_error'', code = Str ''http_503''\<rparr>
   \<and> exclusive_channel (handleNetworkError (JsError ''Failed to fetch''))"
  using exclusive_channel_invariant
    [of v8_TypeError "answers 200 (Obj [(''content'', Str ''Hi'')])" hello_request
        "\<lparr>reply = Str ''Hi'', suggestions = Arr [], resp_sessionId = Str ''s1'',
          error = Undefined, code = Undefined\<rparr>"
        "\<lparr>status = 503, json = Inl (JsError ''bad json'')\<rparr>"
        "\<lparr>reply = Str '''', suggestions = Undefined, resp_sessionId = Undefined,
          error = Str ''server_error'', code = Str ''http_503''\<rparr>"
        "JsError ''Failed to fetch''"]
  by (simp add: askBackend_def answers_def response_ok_def adaptResponse_def js_or_def
      hello_request_def opt_str_def handleErrorResponse_def errorCategory_def show_nat_samples)

subsection \<open>The network-error classifier\<close>

text \<open>
  C5. For every transport failure the network-error classifier returns the empty reply
  with the error \<^verbatim>\<open>network_error\<close> exactly when the failure's message (that of the \<^verbatim>\<open>Error\<close>,
  or \<^verbatim>\<open>Unknown error\<close> for any other thrown value) contains \<^verbatim>\<open>fetch\<close> or \<^verbatim>\<open>network\<close> as a
  substring, and \<^verbatim>\<open>unknown_error\<close> otherwise; \<^verbatim>\<open>Failed to fetch\<close> yields \<^verbatim>\<open>network_error\<close>.
\<close>

theorem network_error_classifier:
  "handleNetworkError e =
     \<lparr>reply = Str '''', suggestions = Undefined, resp_sessionId = Undefined,
      error = Str (if sublist ''fetch'' (error_message e) \<or> sublist ''network'' (error_message e)
                   then ''network_error'' else ''unknown_error''),
      code = Undefined\<rparr>
   \<and> handleNetworkError (JsError ''Failed to fetch'') =
     \<lparr>reply = Str '''', suggestions = Undefined, resp_sessionId = Undefined,
      error = Str ''network_error'', code = Undefined\<rparr>"
  by (simp add: handleNetworkError_def Let_def includes_str_sublist [symmetric] error_message_def)

text \<open>The match is case-sensitive: \<^verbatim>\<open>Network request failed\<close> is an unknown error.\<close>

theorem network_error_classifier_witness:
  "handleNetworkError (JsError ''Network request failed'') =
     \<lparr>reply = Str '''', suggestions = Undefined, resp_sessionId = Undefined,
      error = Str ''unknown_error'', code = Undefined\<rparr>
   \<and> handleNetworkError (JsError ''network down'') =
     \<lparr>reply = Str '''', suggestions = Undefined, resp_sessionId = Undefined,
      error = Str ''network_error'', code = Undefined\<rparr>
   \<and> handleNetworkError NonError =
     \<lparr>reply = Str '''', suggestions = Undefined, resp_sessionId = Undefined,
      error = Str ''unknown_error'', code = Undefined\<rparr>"
  using network_error_classifier [of "JsError ''Network request failed''"]
    network_error_classifier [of "JsError ''network down''"]
    network_error_classifier [of NonError]
  by (simp add: includes_str_sublist [symmetric] error_message_def)

subsection \<open>Escalation\<close>

text \<open>
  What \<^verbatim>\<open>escalate\<close> returns, case by case: success exactly on a 2xx response, and then no
  error; on a non-2xx response on which the classifier returns, its category and nothing
  of its code; on a transport failure, the category of the network-error classifier.
\<close>

lemma escalate_cases:
  "(success (escalate E fetch request) \<longleftrightarrow>
      (\<exists>response. fetch (escalate_call request) = Inr response \<and> response_ok response))
   \<and> (success (escalate E fetch request) \<longrightarrow> esc_error (escalate E fetch request) = Undefined)
   \<and> (fetch (escalate_call request) = Inr response \<and> \<not> response_ok response
        \<and> handleErrorResponse E response = Inr r \<longrightarrow>
          escalate E fetch request = \<lparr>success = False, esc_error = error r\<rparr>)
   \<and> (fetch (escalate_call request) = Inl e \<longrightarrow>
          escalate E fetch request
            = \<lparr>success = False, esc_error = error (handleNetworkError e)\<rparr>)"
  by (auto simp: escalate_def split: sum.splits)

lemma escalate_samples:
  "escalate v8_TypeError (answers 200 (Obj [])) help_escalation
     = \<lparr>success = True, esc_error = Undefined\<rparr>"
  "escalate v8_TypeError (answers 429 (Obj [(''error_code'', Str ''rate_limit'')]))
        help_escalation
     = \<lparr>success = False, esc_error = Str ''quota_exceeded''\<rparr>"
  "escalate v8_TypeError (fails (JsError ''Failed to fetch'')) help_escalation
     = \<lparr>success = False, esc_error = Str ''network_error''\<rparr>"
  by (simp_all add: answers_def fails_def response_ok_def handleErrorResponse_def js_or_def
      errorCategory_def handleNetworkError_def error_message_def escalate_def)

text \<open>
  C6. On a non-2xx response \<^verbatim>\<open>escalate\<close> is to fail with the category the error classifier
  computes. For a 500 whose body is the JSON value \<^verbatim>\<open>null\<close> that category is
  \<^verbatim>\<open>server_error\<close>; the classifier throws on it instead, and \<^verbatim>\<open>escalate\<close> reports the
  TypeError as the transport failure \<^verbatim>\<open>unknown_error\<close>.
\<close>

theorem escalate_null_body_divergence:
  "handleErrorResponse v8_TypeError \<lparr>status = 500, json = Inr Null\<rparr>
     = Inl (JsError (v8_TypeError ''code''))
   \<and> escalate v8_TypeError (answers 500 Null) help_escalation
     = \<lparr>success = False, esc_error = Str ''unknown_error''\<rparr>
   \<and> error (spec_classifier \<lparr>status = 500, json = Inr Null\<rparr>) = Str ''server_error''"
  by (simp add: handleErrorResponse_def escalate_def answers_def response_ok_def
      handleNetworkError_def error_message_def v8_TypeError_def spec_classifier_def
      parsed_body_def body_field_def spec_category_def code_table_def show_nat_samples Let_def)

subsection \<open>The health check\<close>

text \<open>
  C7. \<^verbatim>\<open>checkHealth\<close> reports ok exactly when the transport answered with a 2xx response,
  and then no error; on a non-2xx response with status \<open>s\<close> it reports the text \<^verbatim>\<open>HTTP\<close>, a
  space and the decimal digits of \<open>s\<close>, not a category; on a transport failure it reports
  the message of the \<^verbatim>\<open>Error\<close>, or \<^verbatim>\<open>Network error\<close> for any other thrown value.
\<close>

theorem checkHealth_result:
  "(ok (checkHealth fetch) \<longleftrightarrow>
      (\<exists>response. fetch health_call = Inr response \<and> response_ok response))
   \<and> (ok (checkHealth fetch) \<longrightarrow> health_error (checkHealth fetch) = Undefined)
   \<and> (fetch health_call = Inr response \<and> \<not> response_ok response \<longrightarrow>
          checkHealth fetch
            = \<lparr>ok = False, health_error = Str (''HTTP '' @ show_nat (status response))\<rparr>)
   \<and> (fetch health_call = Inl (JsError m) \<longrightarrow>
          checkHealth fetch = \<lparr>ok = False, health_error = Str m\<rparr>)
   \<and> (fetch health_call = Inl NonError \<longrightarrow>
          checkHealth fetch = \<lparr>ok = False, health_error = Str ''Network error''\<rparr>)"
  by (auto simp: checkHealth_def split: sum.splits)

theorem checkHealth_result_witness:
  "checkHealth (answers 200 (Obj [])) = \<lparr>ok = True, health_error = Undefined\<rparr>
   \<and> checkHealth (answers 503 (Obj [(''code'', Str ''timeout'')]))
       = \<lparr>ok = False, health_error = Str ''HTTP 503''\<rparr>
   \<and> checkHealth (fails (JsError ''Failed to fetch''))
       = \<lparr>ok = False, health_error = Str ''Failed to fetch''\<rparr>
   \<and> checkHealth (fails NonError) = \<lparr>ok = False, health_error = Str ''Network error''\<rparr>"
  using checkHealth_result [of "answers 200 (Obj [])"]
    checkHealth_result [of "answers 503 (Obj [(''code'', Str ''timeout'')])"
      "\<lparr>status = 503, json = Inr (Obj [(''code'', Str ''timeout'')])\<rparr>"]
    checkHealth_result [of "fails (JsError ''Failed to fetch'')" _ "''Failed to fetch''"]
    checkHealth_result [of "fails NonError"]
  by (simp add: answers_def fails_def response_ok_def show_nat_samples checkHealth_def)

section \<open>Properties of the translation lookup\<close>

subsection \<open>Decimal digits\<close>

text \<open>
  The digits \<^const>\<open>show_nat\<close> writes are the decimal digits of the number: reading them back
  gives the number.
\<close>

lemma digit_val_digit: "d < 10 \<Longrightarrow> digit_val (digit d) = d"
proof -
  assume "d < 10"
  then have "d \<in> {0, 1, 2, 3, 4, 5, 6, 7, 8, 9}" by auto
  then show ?thesis
    by (auto simp: digit_val_def digit_def)
qed

lemma read_nat_snoc: "read_nat (s @ [c]) = 10 * read_nat s + digit_val c"
  by (simp add: read_nat_def)

lemma read_nat_show_nat: "read_nat (show_nat n) = n"
proof (induction n rule: show_nat.induct)
  case (1 n)
  show ?case
  proof (cases "n < 10")
    case True
    then show ?thesis
      by (subst show_nat.simps) (simp add: read_nat_def digit_val_digit)
  next
    case False
    with 1 have "read_nat (show_nat (n div 10)) = n div 10" by simp
    with False show ?thesis
      by (subst show_nat.simps) (simp add: read_nat_snoc digit_val_digit)
  qed
qed

subsection \<open>The lookup\<close>

text \<open>
  A key whose first segment names nothing in the table and nothing in its prototype
  chain comes back unchanged, and the key of a text comes back as that text.
\<close>

lemma walk_Undefined: "walk P (Data Undefined) ks = Inr (Data Undefined)"
  by (induction ks) (simp_all add: opt_chain_def)

lemma split_on_nonempty: "split_on sep s \<noteq> []"
  by (induction s) (auto split: list.splits)

lemma t_unknown_key:
  assumes "getProp P (Data (translation_table l)) (hd (split_on CHR ''.'' key))
             = Inr (Data Undefined)"
  shows "t P l key = Inr (Data (Str key))"
proof -
  obtain k ks where ks: "split_on CHR ''.'' key = k # ks"
    using split_on_nonempty [of "CHR ''.''" key] by (cases "split_on CHR ''.'' key") auto
  have "translation_table l \<noteq> Undefined" "translation_table l \<noteq> Null"
    by (cases l; simp add: translation_table_def)+
  with assms ks show ?thesis
    by (simp add: t_def opt_chain_def walk_Undefined tv_truthy_def)
qed

lemma t_text_samples:
  "t P It ''escalateConfirm'' = Inr (Data (Str (''S'' @ [CHR 0xEC] @ '', grazie'')))"
  "t P En ''retry'' = Inr (Data (Str ''Retry''))"
  "t P It ''quickReplies.2'' = Inr (Data (Str ''Parla in English''))"
  by (simp_all add: t_def translation_table_def translations_it_def translations_en_def
      opt_chain_def tv_truthy_def array_index_def is_digit_def read_nat_def digit_val_def)

text \<open>
  Through the prototype chain a key can reach a function, which is returned, or a getter
  that throws, and then the call does not return.
\<close>

lemma t_inherited_samples:
  "t sample_prototypes It ''toString'' = Inr (Builtin ''Object.prototype.toString'')"
  "t sample_prototypes It ''constructor.caller'' = Inl (JsError ''restricted function property'')"
  "t sample_prototypes En ''no.such.key'' = Inr (Data (Str ''no.such.key''))"
  by (simp_all add: t_def translation_table_def translations_it_def translations_en_def
      opt_chain_def tv_truthy_def inherited_def sample_prototypes_def)

text \<open>
  C10. \<^verbatim>\<open>t\<close> is declared to return a string for every locale and key. The table has an
  entry that is no text: \<^verbatim>\<open>quickReplies\<close> is a list, and \<^verbatim>\<open>value || key\<close> hands that list
  back, whatever the prototype chain holds. So does every path to a number, such as the
  length of a text.
\<close>

theorem t_quickReplies_not_string:
  "t P It ''quickReplies'' =
     Inr (Data (Arr [Str (''Devo aprire una nuova attivit'' @ [CHR 0xE0]),
                     Str ''Verifica obblighi'', Str ''Parla in English'']))
   \<and> \<not> is_string (t P It ''quickReplies'')
   \<and> t P En ''quickReplies'' =
     Inr (Data (Arr [Str ''Start a new business'', Str ''Check obligations'',
                     Str ''Parla in Italiano'']))
   \<and> t P It ''agentName.length'' = Inr (Data (Num (Fin 6)))"
  by (simp add: t_def translation_table_def translations_it_def translations_en_def
      opt_chain_def tv_truthy_def is_string_def)

section \<open>Properties of the conversation view\<close>

subsection \<open>Characters, lower case and the regular expressions\<close>

lemma of_char_bound: "(of_char c :: nat) < 256"
  by (metis of_char_mod_256 mod_less_divisor zero_less_numeral)

lemma is_word_toLowerChar: "is_word_char (toLowerChar c) = is_word_char c"
  unfolding is_word_char_def toLowerChar_def Let_def
  by (auto simp: of_char_bound)

lemma is_word_canonicalize: "is_word_char (canonicalize c) = is_word_char c"
  unfolding is_word_char_def canonicalize_def Let_def
  by (auto simp: of_char_bound)

lemma canonicalize_toLowerChar: "canonicalize (toLowerChar c) = canonicalize c"
  unfolding canonicalize_def toLowerChar_def Let_def
  using of_char_bound [of c]
  by (auto simp: )

lemma length_toLowerCase: "length (toLowerCase s) = length s"
  by (simp add: toLowerCase_def)

lemma at_boundary_toLowerCase: "at_boundary (toLowerCase s) i = at_boundary s i"
  by (auto simp: at_boundary_def toLowerCase_def is_word_toLowerChar)

lemma takeWhile_word_toLowerCase:
  "length (takeWhile is_word_char (drop i (toLowerCase s)))
     = length (takeWhile is_word_char (drop i s))"
proof -
  have "is_word_char \<circ> toLowerChar = is_word_char"
    by (rule ext) (simp add: is_word_toLowerChar)
  then show ?thesis
    by (simp add: toLowerCase_def drop_map takeWhile_map)
qed

lemma lit_toLowerCase:
  "map canonicalize (take n (drop i (toLowerCase s))) = map canonicalize (take n (drop i s))"
proof -
  have "canonicalize \<circ> toLowerChar = canonicalize"
    by (rule ext) (simp add: canonicalize_toLowerChar)
  then show ?thesis
    by (simp add: toLowerCase_def drop_map take_map)
qed

lemma ends_toLowerCase: "ends r (toLowerCase s) i = ends r s i"
proof (induction r arbitrary: i)
  case (Seq r1 r2)
  have "ends r2 (toLowerCase s) = ends r2 s"
    by (rule ext) (rule Seq.IH(2))
  then show ?case by (simp add: Seq.IH(1))
qed (simp_all add: lit_toLowerCase takeWhile_word_toLowerCase at_boundary_toLowerCase)

lemma regex_test_toLowerCase: "regex_test r (toLowerCase s) = regex_test r s"
  by (simp add: regex_test_def ends_toLowerCase length_toLowerCase)

lemma regex_test_iff: "regex_test r s \<longleftrightarrow> (\<exists>i\<le>length s. ends r s i \<noteq> [])"
  by (auto simp: regex_test_def list_ex_iff less_Suc_eq_le simp del: upt_Suc)

lemma standalone_word_iff:
  "standalone_word w s \<longleftrightarrow>
     (\<exists>i\<le>length s. at_boundary s i \<and> lit_at w s i \<and> at_boundary s (i + length w))"
  by (auto simp: standalone_word_def list_ex_iff less_Suc_eq_le simp del: upt_Suc)

lemma word_start_iff:
  "word_start w s \<longleftrightarrow> (\<exists>i\<le>length s. at_boundary s i \<and> lit_at w s i)"
  by (auto simp: word_start_def list_ex_iff less_Suc_eq_le simp del: upt_Suc)

lemma ends_Seq_nonempty:
  "ends (Seq a b) s i \<noteq> [] \<longleftrightarrow> (\<exists>j\<in>set (ends a s i). ends b s j \<noteq> [])"
  by (auto simp: concat_eq_Nil_conv)

lemma ends_boundary_nonempty: "ends WordBoundary s j \<noteq> [] \<longleftrightarrow> at_boundary s j"
  by simp

lemma lit_at_length:
  assumes "lit_at w s i" "w \<noteq> []"
  shows "i + length w \<le> length s"
proof -
  have "length (take (length w) (drop i s)) = length w"
    using assms(1) unfolding lit_at_def by (metis length_map)
  then have "length w \<le> length s - i" by simp
  moreover have "0 < length w" using assms(2) by simp
  ultimately show ?thesis by linarith
qed

lemma lit_at_nth:
  assumes "lit_at w s i" "k < length w"
  shows "canonicalize (s ! (i + k)) = canonicalize (w ! k)"
proof -
  have "w \<noteq> []" using assms(2) by auto
  with assms(1) have len: "i + length w \<le> length s" by (rule lit_at_length)
  have "map canonicalize (take (length w) (drop i s)) ! k = map canonicalize w ! k"
    using assms(1) by (simp add: lit_at_def)
  with assms(2) len show ?thesis by simp
qed

lemma lit_at_prefix:
  assumes "lit_at (u @ v) s i"
  shows "lit_at u s i"
proof -
  have "take (length u) (map canonicalize (take (length (u @ v)) (drop i s)))
          = take (length u) (map canonicalize (u @ v))"
    using assms by (simp add: lit_at_def)
  then show ?thesis
    by (simp add: lit_at_def take_map min_def)
qed

lemma word_run_boundary:
  assumes "0 < p" "p \<le> length s" "is_word_char (s ! (p - 1))"
  shows "at_boundary s (p + length (takeWhile is_word_char (drop p s)))"
proof -
  let ?n = "length (takeWhile is_word_char (drop p s))"
  have n_le: "p + ?n \<le> length s"
    using assms(2) length_takeWhile_le [of is_word_char "drop p s"] by simp
  have before: "is_word_char (s ! (p + ?n - 1))"
  proof (cases "?n = 0")
    case True
    with assms(3) show ?thesis by simp
  next
    case False
    then have k: "?n - 1 < ?n" by simp
    have "takeWhile is_word_char (drop p s) ! (?n - 1) \<in> set (takeWhile is_word_char (drop p s))"
      using k by (rule nth_mem)
    then have "is_word_char (takeWhile is_word_char (drop p s) ! (?n - 1))"
      by (rule set_takeWhileD [THEN conjunct2])
    moreover have "takeWhile is_word_char (drop p s) ! (?n - 1) = drop p s ! (?n - 1)"
      using k by (rule takeWhile_nth)
    moreover have "drop p s ! (?n - 1) = s ! (p + (?n - 1))"
      using assms(2) by simp
    ultimately show ?thesis using False by (simp add: )
  qed
  have after: "\<not> is_word_char (s ! (p + ?n))" if "p + ?n < length s"
  proof -
    from that have "?n < length (drop p s)" by simp
    then have "\<not> is_word_char (drop p s ! ?n)" by (rule nth_length_takeWhile)
    with that show ?thesis by simp
  qed
  show ?thesis
    unfolding at_boundary_def using assms(1) n_le before after by auto
qed

lemma word_prefix_match:
  assumes "lit_at w s i" "w \<noteq> []" "is_word_char (last w)"
  shows "\<exists>j\<in>set (ends (Seq (Lit w) WordChars) s i). at_boundary s j"
proof -
  let ?p = "i + length w"
  let ?n = "length (takeWhile is_word_char (drop ?p s))"
  have len: "?p \<le> length s" using assms(1,2) by (rule lit_at_length)
  have "canonicalize (s ! (i + (length w - 1))) = canonicalize (w ! (length w - 1))"
    using assms(1,2) by (intro lit_at_nth) simp_all
  moreover have "i + length w - 1 = i + (length w - 1)"
    using assms(2) by (cases w) simp_all
  ultimately have "is_word_char (s ! (?p - 1))"
    using assms(2,3) is_word_canonicalize [of "s ! (i + (length w - 1))"]
      is_word_canonicalize [of "last w"]
    by (simp add: last_conv_nth)
  with len assms(2) have "at_boundary s (?p + ?n)"
    by (intro word_run_boundary) simp_all
  moreover have "?p + ?n \<in> set (ends (Seq (Lit w) WordChars) s i)"
    using assms(1) by (simp add: lit_at_def)
  ultimately show ?thesis by blast
qed

lemma keyword_match_at:
  assumes "p \<noteq> []" "is_word_char (last p)"
  shows "ends (Seq WordBoundary
                 (Seq (Alt (Lit w1) (Alt (Lit w2) (Seq (Lit p) WordChars))) WordBoundary)) s i \<noteq> []
         \<longleftrightarrow> at_boundary s i \<and>
               ((lit_at w1 s i \<and> at_boundary s (i + length w1))
                \<or> (lit_at w2 s i \<and> at_boundary s (i + length w2))
                \<or> lit_at p s i)"
    (is "?lhs \<longleftrightarrow> ?rhs")
proof
  assume ?lhs
  then show ?rhs
    by (auto simp: lit_at_def split: if_splits)
next
  assume r: ?rhs
  then have b: "at_boundary s i" by simp
  from r consider "lit_at w1 s i \<and> at_boundary s (i + length w1)"
    | "lit_at w2 s i \<and> at_boundary s (i + length w2)" | "lit_at p s i" by blast
  then have "\<exists>j\<in>set (ends (Alt (Lit w1) (Alt (Lit w2) (Seq (Lit p) WordChars))) s i).
                at_boundary s j"
  proof cases
    case 1
    then show ?thesis by (simp add: lit_at_def)
  next
    case 2
    then show ?thesis by (simp add: lit_at_def)
  next
    case 3
    from word_prefix_match [OF 3 assms] show ?thesis by auto
  qed
  then obtain j where "j \<in> set (ends (Alt (Lit w1) (Alt (Lit w2) (Seq (Lit p) WordChars))) s i)"
    and "at_boundary s j" by blast
  then have "\<exists>j\<in>set (ends (Alt (Lit w1) (Alt (Lit w2) (Seq (Lit p) WordChars))) s i).
               ends WordBoundary s j \<noteq> []"
    by (intro bexI [of _ j]) simp_all
  then have "ends (Seq (Alt (Lit w1) (Alt (Lit w2) (Seq (Lit p) WordChars))) WordBoundary) s i \<noteq> []"
    by (simp only: ends_Seq_nonempty)
  with b show ?lhs
    by (subst ends_Seq_nonempty) simp
qed

lemma word_char_l: "is_word_char (last ''engl'')" "is_word_char (last ''ital'')"
  by (simp_all add: is_word_char_def)

lemma english_rx_test:
  "regex_test english_rx s \<longleftrightarrow> word_start ''engl'' s \<or> standalone_word ''inglese'' s"
proof -
  have pre: "lit_at ''english'' s i \<Longrightarrow> lit_at ''engl'' s i" for i
    using lit_at_prefix [of "''engl''" "''ish''" s i] by simp
  have "ends english_rx s i \<noteq> [] \<longleftrightarrow>
          at_boundary s i \<and>
            (lit_at ''engl'' s i \<or> (lit_at ''inglese'' s i \<and> at_boundary s (i + length ''inglese'')))"
    for i
    unfolding english_rx_def
    by (subst keyword_match_at) (use pre word_char_l in auto)
  then show ?thesis
    unfolding regex_test_iff word_start_iff standalone_word_iff by blast
qed

lemma italian_rx_test: "regex_test italian_rx s \<longleftrightarrow> word_start ''ital'' s"
proof -
  have pre1: "lit_at ''italian'' s i \<Longrightarrow> lit_at ''ital'' s i" for i
    using lit_at_prefix [of "''ital''" "''ian''" s i] by simp
  have pre2: "lit_at ''italiano'' s i \<Longrightarrow> lit_at ''ital'' s i" for i
    using lit_at_prefix [of "''ital''" "''iano''" s i] by simp
  have "ends italian_rx s i \<noteq> [] \<longleftrightarrow> at_boundary s i \<and> lit_at ''ital'' s i" for i
    unfolding italian_rx_def
    by (subst keyword_match_at) (use pre1 pre2 word_char_l in auto)
  then show ?thesis
    unfolding regex_test_iff word_start_iff by blast
qed

lemma detectLanguageSwitch_no_user_message:
  "ms = [] \<or> role (last ms) \<noteq> User \<Longrightarrow> detectLanguageSwitch ms loc = loc"
  by (auto simp: detectLanguageSwitch_def Let_def)

lemma standalone_word_start:
  "standalone_word (u @ v) s \<Longrightarrow> word_start u s"
  unfolding standalone_word_iff word_start_iff using lit_at_prefix by blast

lemma detectLanguageSwitch_keywords:
  assumes "ms \<noteq> []" "role (last ms) = User"
  shows "detectLanguageSwitch ms loc =
           (if word_start ''engl'' (content (last ms))
               \<or> standalone_word ''inglese'' (content (last ms)) then En
            else if word_start ''ital'' (content (last ms)) then It
            else loc)"
proof -
  have e: "regex_test english_rx (toLowerCase c)
             = (word_start ''engl'' c \<or> standalone_word ''inglese'' c)" for c
    by (simp only: regex_test_toLowerCase english_rx_test)
  have i: "regex_test italian_rx (toLowerCase c) = word_start ''ital'' c" for c
    by (simp only: regex_test_toLowerCase italian_rx_test)
  show ?thesis
    using assms by (simp add: detectLanguageSwitch_def Let_def e i)
qed

subsection \<open>The language-switch heuristic\<close>

text \<open>
  C8 (as amended). When the last message is a user message, the heuristic sets the locale
  to \<^verbatim>\<open>en\<close> if the message contains the standalone word \<^verbatim>\<open>english\<close> in any case; it sets the
  locale to \<^verbatim>\<open>it\<close> if the message contains the standalone word \<^verbatim>\<open>italiano\<close> in any case and
  no English keyword (no word that begins with \<^verbatim>\<open>engl\<close> and no standalone \<^verbatim>\<open>inglese\<close>); and it
  leaves the locale unchanged if the message contains no word that begins with \<^verbatim>\<open>engl\<close> or
  \<^verbatim>\<open>ital\<close> and no standalone \<^verbatim>\<open>inglese\<close>.
\<close>

theorem language_switch_keywords:
  assumes "ms \<noteq> []" and "role (last ms) = User"
  shows "(standalone_word ''english'' (content (last ms)) \<longrightarrow>
            detectLanguageSwitch ms loc = En)
       \<and> (standalone_word ''italiano'' (content (last ms))
            \<and> \<not> word_start ''engl'' (content (last ms))
            \<and> \<not> standalone_word ''inglese'' (content (last ms)) \<longrightarrow>
            detectLanguageSwitch ms loc = It)
       \<and> (\<not> word_start ''engl'' (content (last ms))
            \<and> \<not> standalone_word ''inglese'' (content (last ms))
            \<and> \<not> word_start ''ital'' (content (last ms)) \<longrightarrow>
            detectLanguageSwitch ms loc = loc)"
proof -
  have e: "standalone_word ''english'' c \<Longrightarrow> word_start ''engl'' c" for c
    using standalone_word_start [of "''engl''" "''ish''" c] by simp
  have i: "standalone_word ''italiano'' c \<Longrightarrow> word_start ''ital'' c" for c
    using standalone_word_start [of "''ital''" "''iano''" c] by simp
  show ?thesis
    unfolding detectLanguageSwitch_keywords [OF assms] using e i by auto
qed

theorem language_switch_keywords_witness:
  "detectLanguageSwitch [user_says ''Parla in English''] It = En
   \<and> detectLanguageSwitch [user_says ''Parla in ITALIANO''] En = It
   \<and> detectLanguageSwitch [user_says ''Verifica obblighi''] It = It"
proof -
  have k: "standalone_word ''english'' ''Parla in English''"
    "standalone_word ''italiano'' ''Parla in ITALIANO''"
    "\<not> word_start ''engl'' ''Parla in ITALIANO''"
    "\<not> standalone_word ''inglese'' ''Parla in ITALIANO''"
    "\<not> word_start ''engl'' ''Verifica obblighi''"
    "\<not> standalone_word ''inglese'' ''Verifica obblighi''"
    "\<not> word_start ''ital'' ''Verifica obblighi''"
    by code_simp+
  show ?thesis
    using language_switch_keywords [of "[user_says ''Parla in English'']" It]
      language_switch_keywords [of "[user_says ''Parla in ITALIANO'']" En]
      language_switch_keywords [of "[user_says ''Verifica obblighi'']" It]
      k
    by (simp add: user_says_def)
qed

text \<open>
  C8 as stated fails twice. \<^verbatim>\<open>Parlo italiano, non inglese\<close> contains the standalone word
  \<^verbatim>\<open>italiano\<close> and not \<^verbatim>\<open>english\<close>, and an English view stays English. \<^verbatim>\<open>I love Italy\<close>
  contains neither \<^verbatim>\<open>english\<close> nor \<^verbatim>\<open>italiano\<close>, and an English view turns Italian.
\<close>

theorem language_switch_counterexample:
  "standalone_word ''italiano'' ''Parlo italiano, non inglese''
   \<and> \<not> standalone_word ''english'' ''Parlo italiano, non inglese''
   \<and> detectLanguageSwitch [user_says ''Parlo italiano, non inglese''] En = En
   \<and> \<not> standalone_word ''english'' ''I love Italy''
   \<and> \<not> standalone_word ''italiano'' ''I love Italy''
   \<and> detectLanguageSwitch [user_says ''I love Italy''] En = It"
proof -
  have k: "standalone_word ''italiano'' ''Parlo italiano, non inglese''"
    "\<not> standalone_word ''english'' ''Parlo italiano, non inglese''"
    "standalone_word ''inglese'' ''Parlo italiano, non inglese''"
    "\<not> standalone_word ''english'' ''I love Italy''"
    "\<not> standalone_word ''italiano'' ''I love Italy''"
    "\<not> word_start ''engl'' ''I love Italy''"
    "\<not> standalone_word ''inglese'' ''I love Italy''"
    "word_start ''ital'' ''I love Italy''"
    by code_simp+
  show ?thesis
    using k by (simp add: detectLanguageSwitch_keywords user_says_def)
qed

subsection \<open>The session identifier\<close>

text \<open>The identifier the modelled backend hands out is none of those it issued before.\<close>

lemma fresh_id_longer: "x \<in> set ids \<Longrightarrow> length x < length (fresh_id ids)"
  by (induction ids) (auto simp: fresh_id_def)

lemma fresh_id_fresh: "fresh_id ids \<notin> set ids"
  using fresh_id_longer [of "fresh_id ids" ids] by auto

text \<open>
  When \<^verbatim>\<open>ensureSidAndGreeting\<close> finds an identifier in the storage and sets \<^verbatim>\<open>sessionId\<close>, the
  effect that runs after the change does nothing.
\<close>

lemma sessionId_setSessionId: "sessionId_state (setSessionId v st) = v"
  by (simp add: setSessionId_def)

lemma localStorage_setSessionId: "localStorage (setSessionId v st) = localStorage st"
  by (simp add: setSessionId_def)

lemma sessionEffect_after_reuse:
  "str_truthy v \<Longrightarrow> sessionEffect (setSessionId v st) = (setSessionId v st, [])"
  by (simp add: sessionEffect_def sessionId_setSessionId)

text \<open>
  An established session stays established through every step, and every call made
  meanwhile is a chat request carrying its identifier.
\<close>

lemma sessionEffect_established:
  assumes "session_established sid st"
  shows "session_established sid (fst (sessionEffect st))
         \<and> list_all (asks_with sid) (snd (sessionEffect st))"
proof (cases "str_truthy (sessionId_state st)")
  case True
  with assms show ?thesis by (simp add: sessionEffect_def)
next
  case False
  from assms have s: "localStorage st SID_KEY = Some sid" "sid \<noteq> []" "pending_starts st = []"
    by (simp_all add: session_established_def)
  then have "sessionEffect st = (setSessionId (Some sid) st, [])"
    using False by (simp add: sessionEffect_def ensureSidAndGreeting_def str_truthy_def)
  moreover have "session_established sid (setSessionId (Some sid) st)"
    using s by (simp add: session_established_def setSessionId_def)
  ultimately show ?thesis by simp
qed

lemma sendMessage_established:
  assumes "session_established sid st"
  shows "session_established sid (fst (sendMessage txt now st))
         \<and> list_all (asks_with sid) (snd (sendMessage txt now st))"
  using assms
  by (auto simp: session_established_def sendMessage_def submitUserMessage_def Let_def
      str_truthy_def asks_with_def split: option.splits)

lemma step_established:
  assumes "session_established sid st"
  shows "session_established sid (fst (step ev st)) \<and> list_all (asks_with sid) (snd (step ev st))"
proof (cases ev)
  case Mount
  with assms show ?thesis by (simp add: sessionEffect_established)
next
  case (Reload loc)
  from assms have "session_established sid
      \<lparr>locale_state = loc, messages_state = [], sessionId_state = None, input_state = '''',
       isTyping_state = False, localStorage = localStorage st, pending_starts = []\<rparr>"
    by (simp add: session_established_def str_truthy_def)
  with Reload show ?thesis by (simp add: reload_def sessionEffect_established)
next
  case (Submit msg now)
  with assms show ?thesis by (simp add: sendMessage_established)
next
  case (Answer k answer now1 now2)
  from assms have "pending_starts st = []" by (simp add: session_established_def)
  with Answer assms show ?thesis by simp
qed

lemma run_established:
  assumes "session_established sid st"
  shows "session_established sid (fst (run evs st)) \<and> list_all (asks_with sid) (snd (run evs st))"
  using assms
proof (induction evs arbitrary: st)
  case Nil
  then show ?case by simp
next
  case (Cons ev evs)
  from step_established [OF Cons.prems, of ev]
  have 1: "session_established sid (fst (step ev st))"
    and 2: "list_all (asks_with sid) (snd (step ev st))" by simp_all
  from Cons.IH [OF 1] 2 show ?case
    by (simp add: split_beta)
qed

text \<open>
  The answer to the only pending start call, arriving at a view that holds no identifier,
  establishes the session; a start call goes out only when neither the view nor the
  storage holds an identifier; every answer is stored; the mounted effect shows the
  greeting.
\<close>

lemma answer_establishes:
  assumes "pending_starts st = [p]" "\<not> str_truthy (sessionId_state st)" "session_id answer \<noteq> []"
  shows "session_established (session_id answer) (fst (step (Answer 0 answer now1 now2) st))"
  using assms
  by (cases p)
     (auto simp: session_established_def ensureSidAndGreeting_resume_def sendMessage_resume_def
       submitUserMessage_def rerender_def sessionEffect_def setSessionId_def str_truthy_def
       Let_def split_beta split: option.splits if_splits)

lemma sessionEffect_start:
  assumes "CallStart \<in> set (snd (sessionEffect st))"
  shows "\<not> str_truthy (sessionId_state (fst (sessionEffect st)))
         \<and> \<not> str_truthy (localStorage (fst (sessionEffect st)) SID_KEY)"
  using assms
  by (auto simp: sessionEffect_def ensureSidAndGreeting_def Let_def split: if_splits)

lemma sendMessage_start:
  assumes "CallStart \<in> set (snd (sendMessage msg now st))"
  shows "\<not> str_truthy (sessionId_state (fst (sendMessage msg now st)))
         \<and> \<not> str_truthy (localStorage (fst (sendMessage msg now st)) SID_KEY)"
  using assms
  by (auto simp: sendMessage_def submitUserMessage_def Let_def split: if_splits)

lemma start_issued_without_identifier:
  assumes "CallStart \<in> set (snd (step ev st))"
  shows "\<not> str_truthy (sessionId_state (fst (step ev st)))
         \<and> \<not> str_truthy (localStorage (fst (step ev st)) SID_KEY)"
proof (cases ev)
  case Mount
  with assms show ?thesis by (simp add: sessionEffect_start)
next
  case (Reload loc)
  with assms show ?thesis by (simp add: reload_def sessionEffect_start)
next
  case (Submit msg now)
  with assms show ?thesis by (simp add: sendMessage_start)
next
  case (Answer k answer now1 now2)
  with assms show ?thesis
    by (auto simp: ensureSidAndGreeting_resume_def sendMessage_resume_def
        submitUserMessage_def rerender_def sessionEffect_def ensureSidAndGreeting_def
        setSessionId_def Let_def split_beta split: Pending.splits if_splits)
qed

lemma answer_stored:
  assumes "k < length (pending_starts st)"
  shows "localStorage (fst (step (Answer k answer now1 now2) st)) SID_KEY
           = Some (session_id answer)"
  using assms
  by (auto simp: ensureSidAndGreeting_resume_def sendMessage_resume_def
      submitUserMessage_def rerender_def sessionEffect_def ensureSidAndGreeting_def
      setSessionId_def Let_def split_beta split: Pending.splits if_splits)

lemma greeting_appended:
  assumes "pending_starts st = [PendingEffect True]" "start_reply answer \<noteq> []"
  shows "messages_state (fst (step (Answer 0 answer now1 now2) st))
           = messages_state st @
             [\<lparr>role = Assistant, content = start_reply answer, timestamp = Some now1\<rparr>]"
  using assms
  by (auto simp: ensureSidAndGreeting_resume_def rerender_def sessionEffect_def
      ensureSidAndGreeting_def setSessionId_def Let_def split: if_splits)

text \<open>
  C9 (as amended). Once a non-empty session identifier has been obtained from a start
  call and stored under the key, with no other start call pending and no other identifier
  in the view's \<^verbatim>\<open>sessionId\<close>, every later step of the view issues chat requests only, each
  with that identifier as its \<^verbatim>\<open>sessionId\<close>, and never a start call. Such a state is
  reached when the only pending start call answers a view that holds no identifier. A
  start call carries no argument and is issued only when neither the view's \<^verbatim>\<open>sessionId\<close>
  nor the storage holds a non-empty identifier; the \<^verbatim>\<open>session_id\<close> it returns is stored under
  the key and its greeting is appended by the mounted effect; and the start operation as
  the specification describes it returns an identifier the backend has not issued before,
  together with the greeting.
\<close>

theorem session_id_reused:
  "(session_established sid st \<longrightarrow>
      list_all (asks_with sid) (snd (run evs st))
      \<and> CallStart \<notin> set (snd (run evs st))
      \<and> session_established sid (fst (run evs st)))
   \<and> (pending_starts st0 = [p] \<and> \<not> str_truthy (sessionId_state st0)
        \<and> session_id answer \<noteq> [] \<longrightarrow>
        session_established (session_id answer) (fst (step (Answer 0 answer now1 now2) st0)))
   \<and> (CallStart \<in> set (snd (step ev st1)) \<longrightarrow>
        \<not> str_truthy (sessionId_state (fst (step ev st1)))
        \<and> \<not> str_truthy (localStorage (fst (step ev st1)) SID_KEY))
   \<and> (k < length (pending_starts st2) \<longrightarrow>
        localStorage (fst (step (Answer k answer2 now3 now4) st2)) SID_KEY
          = Some (session_id answer2))
   \<and> (pending_starts st3 = [PendingEffect True] \<and> start_reply answer3 \<noteq> [] \<longrightarrow>
        messages_state (fst (step (Answer 0 answer3 now5 now6) st3))
          = messages_state st3 @
            [\<lparr>role = Assistant, content = start_reply answer3, timestamp = Some now5\<rparr>])
   \<and> session_id (fst (start b)) \<notin> set (issued b)
   \<and> start_reply (fst (start b)) = greeting b
   \<and> payload start_call = None"
proof -
  have no_start: "CallStart \<notin> set cs" if "list_all (asks_with x) cs" for x cs
    using that by (auto simp: list_all_iff asks_with_def)
  have a: "list_all (asks_with sid) (snd (run evs st))
           \<and> CallStart \<notin> set (snd (run evs st))
           \<and> session_established sid (fst (run evs st))"
    if "session_established sid st"
    using run_established [OF that, of evs] no_start by blast
  have b: "session_id (fst (start b)) \<notin> set (issued b)"
    by (simp add: start_def fresh_id_fresh)
  have c: "start_reply (fst (start b)) = greeting b" "payload start_call = None"
    by (simp_all add: start_def start_call_def)
  show ?thesis
    using a b c answer_establishes start_issued_without_identifier answer_stored
      greeting_appended
    by (intro conjI impI) blast+
qed

text \<open>
  The start scenario: the view is mounted in a browser that has stored nothing and calls
  start; the backend answers \<^verbatim>\<open>{session_id: "abc", reply: "Hi"}\<close>; the list then holds the one
  assistant message \<^verbatim>\<open>Hi\<close>, the identifier is \<^verbatim>\<open>abc\<close>, and two later sends reuse it, one of
  them after the page was loaded again. The same start call answered by the modelled
  backend, which has issued \<^verbatim>\<open>abc\<close> before, establishes the new identifier \<^verbatim>\<open>ssss\<close>.
\<close>

theorem session_id_reused_witness:
  "step Mount fresh_view = (fresh_view\<lparr>pending_starts := [PendingEffect True]\<rparr>, [CallStart])
   \<and> session_established ''abc''
        (fst (step (Answer 0 abc_answer 5 5) (fst (step Mount fresh_view))))
   \<and> messages_state (fst (step (Answer 0 abc_answer 5 5) (fst (step Mount fresh_view))))
       = [\<lparr>role = Assistant, content = ''Hi'', timestamp = Some 5\<rparr>]
   \<and> localStorage (fst (step (Answer 0 abc_answer 5 5) (fst (step Mount fresh_view)))) SID_KEY
       = Some ''abc''
   \<and> snd (run [Submit ''  hello '' 6, Reload It, Answer 0 zzz_answer 7 8, Submit ''bye'' 9]
            (fst (step (Answer 0 abc_answer 5 5) (fst (step Mount fresh_view)))))
       = [CallAskBackend \<lparr>message = Some ''hello'', messages = None, sessionId = Some ''abc'',
                          req_locale = Some En\<rparr>,
          CallAskBackend \<lparr>message = Some ''bye'', messages = None, sessionId = Some ''abc'',
                          req_locale = Some It\<rparr>]
   \<and> CallStart \<notin> set (snd (run [Submit ''  hello '' 6, Reload It, Answer 0 zzz_answer 7 8,
                                   Submit ''bye'' 9]
                              (fst (step (Answer 0 abc_answer 5 5) (fst (step Mount fresh_view))))))
   \<and> fst (start busy_backend) = \<lparr>session_id = ''ssss'', start_reply = ''Hi''\<rparr>
   \<and> ''ssss'' \<notin> set (issued busy_backend)
   \<and> session_established ''ssss''
        (fst (step (Answer 0 (fst (start busy_backend)) 5 5) (fst (step Mount fresh_view))))"
proof -
  have m: "step Mount fresh_view
             = (fresh_view\<lparr>pending_starts := [PendingEffect True]\<rparr>, [CallStart])"
    by (simp add: sessionEffect_def ensureSidAndGreeting_def fresh_view_def str_truthy_def)
  have s: "fst (start busy_backend) = \<lparr>session_id = ''ssss'', start_reply = ''Hi''\<rparr>"
    by (simp add: start_def busy_backend_def fresh_id_def)
  have h: "pending_starts (fst (step Mount fresh_view)) = [PendingEffect True]"
    "\<not> str_truthy (sessionId_state (fst (step Mount fresh_view)))"
    "session_id (fst (start busy_backend)) \<noteq> []" "start_reply abc_answer \<noteq> []"
    "CallStart \<in> set (snd (step Mount fresh_view))"
    "0 < length (pending_starts (fst (step Mount fresh_view)))"
    unfolding m s by (simp_all add: fresh_view_def str_truthy_def abc_answer_def)
  have e: "session_established ''abc''
             (fst (step (Answer 0 abc_answer 5 5) (fst (step Mount fresh_view))))"
    using answer_establishes [of "fst (step Mount fresh_view)" "PendingEffect True" abc_answer 5 5]
      h(1,2)
    by (simp add: abc_answer_def)
  have r: "snd (run [Submit ''  hello '' 6, Reload It, Answer 0 zzz_answer 7 8, Submit ''bye'' 9]
            (fst (step (Answer 0 abc_answer 5 5) (fst (step Mount fresh_view)))))
       = [CallAskBackend \<lparr>message = Some ''hello'', messages = None, sessionId = Some ''abc'',
                          req_locale = Some En\<rparr>,
          CallAskBackend \<lparr>message = Some ''bye'', messages = None, sessionId = Some ''abc'',
                          req_locale = Some It\<rparr>]"
    by code_simp
  show ?thesis
    using session_id_reused
      [where sid = "''abc''"
         and st = "fst (step (Answer 0 abc_answer 5 5) (fst (step Mount fresh_view)))"
         and evs = "[Submit ''  hello '' 6, Reload It, Answer 0 zzz_answer 7 8, Submit ''bye'' 9]"
         and ?st0.0 = "fst (step Mount fresh_view)" and p = "PendingEffect True"
         and answer = "fst (start busy_backend)" and ?now1.0 = 5 and ?now2.0 = 5
         and ev = Mount and ?st1.0 = fresh_view
         and k = 0 and ?st2.0 = "fst (step Mount fresh_view)" and ?answer2.0 = abc_answer
         and ?now3.0 = 5 and ?now4.0 = 5
         and ?st3.0 = "fst (step Mount fresh_view)" and ?answer3.0 = abc_answer
         and ?now5.0 = 5 and ?now6.0 = 5
         and b = busy_backend]
      m s h e r
    by (simp add: abc_answer_def fresh_view_def busy_backend_def)
qed

text \<open>
  C9 as stated fails twice. The effect and a send each call start before either answer
  has come; the send's answer \<^verbatim>\<open>zzz\<close> arrives first and the view takes it, then the effect's
  answer \<^verbatim>\<open>abc\<close> overwrites the storage although its run is no longer mounted: \<^verbatim>\<open>abc\<close> is the
  stored identifier, and the next send carries \<^verbatim>\<open>zzz\<close>. And when a start call returns the
  empty identifier, it is stored and the next send calls start again.
\<close>

theorem session_reuse_counterexample:
  "localStorage (fst (run [Mount, Submit ''hello'' 1, Answer 1 zzz_answer 2 3,
                           Answer 0 abc_answer 4 5] fresh_view)) SID_KEY = Some ''abc''
   \<and> snd (step (Submit ''again'' 6)
             (fst (run [Mount, Submit ''hello'' 1, Answer 1 zzz_answer 2 3,
                        Answer 0 abc_answer 4 5] fresh_view)))
       = [CallAskBackend \<lparr>message = Some ''again'', messages = None, sessionId = Some ''zzz'',
                          req_locale = Some En\<rparr>]
   \<and> localStorage (fst (run [Mount, Answer 0 empty_answer 1 2] fresh_view)) SID_KEY = Some ''''
   \<and> snd (step (Submit ''hello'' 3) (fst (run [Mount, Answer 0 empty_answer 1 2] fresh_view)))
       = [CallStart]"
  by code_simp

end
